theory Spec2Isabelle
  imports Complex_Main
begin

section \<open>Conventions of the embedding\<close>

text \<open>
  The program is Python. Its \<open>float\<close> values are modelled as \<^typ>\<open>real\<close> numbers
  (rounding is not modelled), its \<open>int\<close> lengths and indices as \<^typ>\<open>nat\<close>, its
  \<open>str\<close> values as \<^typ>\<open>string\<close> holding the UTF-8 bytes of the text. The reference
  text is taken to be ASCII, so that one character of the text is one \<^typ>\<open>char\<close>;
  the phonetic symbols the program writes in IPA are the byte sequences below.
  An exception is a value of type \<open>exn\<close>; a function that can raise returns
  \<open>exn + 'a\<close> with \<open>Inl\<close> for the raised exception.
\<close>

type_synonym phoneme_sym = string

abbreviation ph_ae :: phoneme_sym where "ph_ae \<equiv> [CHR 0xC3, CHR 0xA6]"
abbreviation ph_eth :: phoneme_sym where "ph_eth \<equiv> [CHR 0xC3, CHR 0xB0]"
abbreviation ph_eng :: phoneme_sym where "ph_eng \<equiv> [CHR 0xC5, CHR 0x8B]"
abbreviation ph_open_a_long :: phoneme_sym where
  "ph_open_a_long \<equiv> [CHR 0xC9, CHR 0x91, CHR 0xCB, CHR 0x90]"
abbreviation ph_turned_a :: phoneme_sym where "ph_turned_a \<equiv> [CHR 0xC9, CHR 0x92]"
abbreviation ph_open_o_i :: phoneme_sym where
  "ph_open_o_i \<equiv> [CHR 0xC9, CHR 0x94, CHR 0xC9, CHR 0xAA]"
abbreviation ph_open_o_long :: phoneme_sym where
  "ph_open_o_long \<equiv> [CHR 0xC9, CHR 0x94, CHR 0xCB, CHR 0x90]"
abbreviation ph_schwa :: phoneme_sym where "ph_schwa \<equiv> [CHR 0xC9, CHR 0x99]"
abbreviation ph_schwa_u :: phoneme_sym where
  "ph_schwa_u \<equiv> [CHR 0xC9, CHR 0x99, CHR 0xCA, CHR 0x8A]"
abbreviation ph_schwa_r :: phoneme_sym where
  "ph_schwa_r \<equiv> [CHR 0xC9, CHR 0x99, CHR ''r'']"
abbreviation ph_er_long :: phoneme_sym where
  "ph_er_long \<equiv> [CHR 0xC9, CHR 0x9C, CHR 0xCB, CHR 0x90]"
abbreviation ph_small_i :: phoneme_sym where "ph_small_i \<equiv> [CHR 0xC9, CHR 0xAA]"
abbreviation ph_esh :: phoneme_sym where "ph_esh \<equiv> [CHR 0xCA, CHR 0x83]"
abbreviation ph_upsilon :: phoneme_sym where "ph_upsilon \<equiv> [CHR 0xCA, CHR 0x8A]"
abbreviation ph_wedge :: phoneme_sym where "ph_wedge \<equiv> [CHR 0xCA, CHR 0x8C]"
abbreviation ph_ezh :: phoneme_sym where "ph_ezh \<equiv> [CHR 0xCA, CHR 0x92]"
abbreviation ph_theta :: phoneme_sym where "ph_theta \<equiv> [CHR 0xCE, CHR 0xB8]"
abbreviation ph_i_long :: phoneme_sym where "ph_i_long \<equiv> [CHR ''i'', CHR 0xCB, CHR 0x90]"
abbreviation ph_u_long :: phoneme_sym where "ph_u_long \<equiv> [CHR ''u'', CHR 0xCB, CHR 0x90]"
abbreviation ph_a_i :: phoneme_sym where "ph_a_i \<equiv> [CHR ''a'', CHR 0xC9, CHR 0xAA]"
abbreviation ph_a_u :: phoneme_sym where "ph_a_u \<equiv> [CHR ''a'', CHR 0xCA, CHR 0x8A]"
abbreviation ph_e_i :: phoneme_sym where "ph_e_i \<equiv> [CHR ''e'', CHR 0xC9, CHR 0xAA]"
abbreviation ph_t_esh :: phoneme_sym where "ph_t_esh \<equiv> [CHR ''t'', CHR 0xCA, CHR 0x83]"
abbreviation ph_d_ezh :: phoneme_sym where "ph_d_ezh \<equiv> [CHR ''d'', CHR 0xCA, CHR 0x92]"

datatype exn =
    ImportError string
  | ValueError string
  | FileNotFoundError string
  | IndexError
  | KeyError string
  | ZeroDivisionError
  | LibraryError string
  | RuntimeError string

text \<open>\<open>str(e)\<close>: the message of an exception.\<close>

fun exn_str :: "exn \<Rightarrow> string" where
  "exn_str (ImportError m) = m"
| "exn_str (ValueError m) = m"
| "exn_str (FileNotFoundError m) = m"
| "exn_str IndexError = ''list index out of range''"
| "exn_str (KeyError k) = [CHR 0x27] @ k @ [CHR 0x27]"
| "exn_str ZeroDivisionError = ''division by zero''"
| "exn_str (LibraryError m) = m"
| "exn_str (RuntimeError m) = m"

subsection \<open>Substring test (Python's \<open>sub in s\<close>)\<close>

fun starts_with :: "string \<Rightarrow> string \<Rightarrow> bool" where
  "starts_with [] s = True"
| "starts_with (c # cs) [] = False"
| "starts_with (c # cs) (d # ds) = (c = d \<and> starts_with cs ds)"

fun str_in :: "string \<Rightarrow> string \<Rightarrow> bool" where
  "str_in sub [] = (sub = [])"
| "str_in sub (d # ds) = (starts_with sub (d # ds) \<or> str_in sub ds)"

subsection \<open>numpy reductions\<close>

definition np_mean :: "real list \<Rightarrow> real" where
  "np_mean xs = sum_list xs / real (length xs)"

definition np_std :: "real list \<Rightarrow> real" where
  "np_std xs = sqrt (np_mean (map (\<lambda>x. (x - np_mean xs)\<^sup>2) xs))"

section \<open>Issue messages\<close>

text \<open>
  Every issue string of the scorer is an f-string: a fixed Chinese text around the
  phoneme symbol, which stands between ASCII quotes. An issue is modelled by its
  template and the symbol. The program later searches issues for fixed Chinese marker
  words; a marker holds no ASCII quote, so it occurs in the message exactly when it
  occurs in the fixed text of the template or inside the symbol.

  Templates, in source order (\<open>score_phoneme_quality\<close>, then
  \<open>check_phoneme_type_quality\<close>), with the marker words their fixed text holds:
  \<^item> \<open>DurTooShort\<close> (duration below 0.7 of the minimum): \<open>guo-duan\<close>;
  \<^item> \<open>DurShort\<close> (below the minimum): none;
  \<^item> \<open>DurTooLong\<close> (above 1.5 of the maximum): \<open>guo-chang\<close>;
  \<^item> \<open>DurLong\<close> (above the maximum): none;
  \<^item> \<open>Unstable\<close>, \<open>SlightlyUnstable\<close> (MFCC dispersion): \<open>bu-wending\<close>;
  \<^item> \<open>EnergyInsufficient\<close>: \<open>nengliang-buzu\<close> and \<open>qingxi\<close>;
  \<^item> \<open>EnergyLow\<close>: none;
  \<^item> \<open>FricativeLowCentroid\<close>: \<open>moca\<close>;
  \<^item> \<open>LowVowelHighCentroid\<close>, \<open>HighVowelCentroid\<close>: \<open>shewei\<close>;
  \<^item> \<open>LowVowelOpening\<close>: \<open>kaikou\<close>;
  \<^item> \<open>HighVowelTongue\<close>: \<open>shewei\<close>;
  \<^item> \<open>SibilantFriction\<close>: \<open>moca\<close>;
  \<^item> \<open>VoicelessStopBurst\<close>, \<open>VoicedStopVoicing\<close>: \<open>baopo\<close>;
  \<^item> \<open>NasalResonance\<close>: none.
\<close>

datatype marker =
  GuoDuan | GuoChang | NengLiangBuZu | BuWenDing | QingXi | QingXiDu
  | MoCa | BaoPo | SheWei | KaiKou

fun marker_text :: "marker \<Rightarrow> string" where
  "marker_text GuoDuan = [CHR 0xE8, CHR 0xBF, CHR 0x87, CHR 0xE7, CHR 0x9F, CHR 0xAD]"
| "marker_text GuoChang = [CHR 0xE8, CHR 0xBF, CHR 0x87, CHR 0xE9, CHR 0x95, CHR 0xBF]"
| "marker_text NengLiangBuZu =
     [CHR 0xE8, CHR 0x83, CHR 0xBD, CHR 0xE9, CHR 0x87, CHR 0x8F,
      CHR 0xE4, CHR 0xB8, CHR 0x8D, CHR 0xE8, CHR 0xB6, CHR 0xB3]"
| "marker_text BuWenDing =
     [CHR 0xE4, CHR 0xB8, CHR 0x8D, CHR 0xE7, CHR 0xA8, CHR 0xB3, CHR 0xE5, CHR 0xAE, CHR 0x9A]"
| "marker_text QingXi = [CHR 0xE6, CHR 0xB8, CHR 0x85, CHR 0xE6, CHR 0x99, CHR 0xB0]"
| "marker_text QingXiDu =
     [CHR 0xE6, CHR 0xB8, CHR 0x85, CHR 0xE6, CHR 0x99, CHR 0xB0, CHR 0xE5, CHR 0xBA, CHR 0xA6]"
| "marker_text MoCa = [CHR 0xE6, CHR 0x91, CHR 0xA9, CHR 0xE6, CHR 0x93, CHR 0xA6]"
| "marker_text BaoPo = [CHR 0xE7, CHR 0x88, CHR 0x86, CHR 0xE7, CHR 0xA0, CHR 0xB4]"
| "marker_text SheWei = [CHR 0xE8, CHR 0x88, CHR 0x8C, CHR 0xE4, CHR 0xBD, CHR 0x8D]"
| "marker_text KaiKou = [CHR 0xE5, CHR 0xBC, CHR 0x80, CHR 0xE5, CHR 0x8F, CHR 0xA3]"

datatype template =
    DurTooShort | DurShort | DurTooLong | DurLong
  | Unstable | SlightlyUnstable
  | EnergyInsufficient | EnergyLow
  | FricativeLowCentroid | LowVowelHighCentroid | HighVowelCentroid
  | LowVowelOpening | HighVowelTongue | SibilantFriction
  | VoicelessStopBurst | VoicedStopVoicing | NasalResonance

datatype issue = Issue template phoneme_sym

fun template_has :: "template \<Rightarrow> marker \<Rightarrow> bool" where
  "template_has DurTooShort m = (m = GuoDuan)"
| "template_has DurTooLong m = (m = GuoChang)"
| "template_has Unstable m = (m = BuWenDing)"
| "template_has SlightlyUnstable m = (m = BuWenDing)"
| "template_has EnergyInsufficient m = (m = NengLiangBuZu \<or> m = QingXi)"
| "template_has FricativeLowCentroid m = (m = MoCa)"
| "template_has LowVowelHighCentroid m = (m = SheWei)"
| "template_has HighVowelCentroid m = (m = SheWei)"
| "template_has LowVowelOpening m = (m = KaiKou)"
| "template_has HighVowelTongue m = (m = SheWei)"
| "template_has SibilantFriction m = (m = MoCa)"
| "template_has VoicelessStopBurst m = (m = BaoPo)"
| "template_has VoicedStopVoicing m = (m = BaoPo)"
| "template_has DurShort m = False"
| "template_has DurLong m = False"
| "template_has EnergyLow m = False"
| "template_has NasalResonance m = False"

fun issue_has :: "marker \<Rightarrow> issue \<Rightarrow> bool" where
  "issue_has m (Issue t ph) = (template_has t m \<or> str_in (marker_text m) ph)"

section \<open>PhonemeScorer: scoring one phoneme\<close>

text \<open>
  The feature dictionary, as the scorer reads it: one optional field per key that the
  scorer looks up, \<open>None\<close> when the key is absent.
\<close>

record features =
  mfcc_mean :: "real list option"
  energy_mean :: "real option"
  spectral_centroid_mean :: "real option"
  f1 :: "real option"
  zcr_mean :: "real option"
  energy_max :: "real option"
  voicing_rate :: "real option"
  f0_mean :: "real option"
  f0_std :: "real option"

definition no_features :: features where
  "no_features = \<lparr>mfcc_mean = None, energy_mean = None, spectral_centroid_mean = None,
     f1 = None, zcr_mean = None, energy_max = None, voicing_rate = None,
     f0_mean = None, f0_std = None\<rparr>"

definition duration_thresholds :: "(phoneme_sym \<times> real \<times> real) list" where
  "duration_thresholds =
    [(ph_ae, 0.08, 0.15), (ph_small_i, 0.06, 0.12), (ph_upsilon, 0.06, 0.12),
     (ph_i_long, 0.10, 0.20), (ph_u_long, 0.10, 0.20), (ph_er_long, 0.12, 0.25),
     (''p'', 0.02, 0.08), (''b'', 0.03, 0.10), (''t'', 0.02, 0.08),
     (''d'', 0.03, 0.10), (''k'', 0.02, 0.08), (''g'', 0.03, 0.10),
     (''f'', 0.08, 0.15), (''v'', 0.06, 0.12), (''s'', 0.08, 0.18),
     (''z'', 0.06, 0.15), (ph_esh, 0.08, 0.16), (ph_ezh, 0.06, 0.14)]"

definition classify_phoneme_detailed :: "phoneme_sym \<Rightarrow> string" where
  "classify_phoneme_detailed phoneme =
    (let vowels = [ph_ae, ph_small_i, ph_upsilon, ph_i_long, ph_u_long, ph_er_long, ph_wedge,
                   ph_a_i, ph_a_u, ph_open_o_i, ''e'', ph_turned_a, ph_open_a_long];
         fricatives = [''f'', ''v'', ''s'', ''z'', ph_esh, ph_ezh, ph_theta, ph_eth, ''h''];
         stops = [''p'', ''b'', ''t'', ''d'', ''k'', ''g''];
         affricates = [ph_t_esh, ph_d_ezh];
         nasals = [''m'', ''n'', ph_eng];
         liquids = [''l'', ''r''];
         glides = [''w'', ''j'']
     in if phoneme \<in> set vowels then
          (if phoneme \<in> set [ph_ae, ph_open_a_long, ph_turned_a] then ''low_vowel''
           else if phoneme \<in> set [ph_i_long, ph_small_i, ph_u_long, ph_upsilon] then ''high_vowel''
           else if phoneme \<in> set [''e'', ph_er_long, ph_wedge] then ''mid_vowel''
           else ''diphthong'')
        else if phoneme \<in> set fricatives then
          (if phoneme \<in> set [''s'', ''z'', ph_esh, ph_ezh] then ''sibilant_fricative''
           else ''non_sibilant_fricative'')
        else if phoneme \<in> set stops then
          (if phoneme \<in> set [''p'', ''t'', ''k''] then ''voiceless_stop'' else ''voiced_stop'')
        else if phoneme \<in> set affricates then ''affricate''
        else if phoneme \<in> set nasals then ''nasal''
        else if phoneme \<in> set liquids then ''liquid''
        else if phoneme \<in> set glides then ''glide''
        else ''unknown'')"

definition check_phoneme_type_quality ::
  "phoneme_sym \<Rightarrow> string \<Rightarrow> features \<Rightarrow> real \<Rightarrow> issue list" where
  "check_phoneme_type_quality phoneme phoneme_type feats duration =
    (if phoneme_type = ''low_vowel'' then
       (case f1 feats of
          Some v \<Rightarrow> if v > 0 \<and> v < 600 then [Issue LowVowelOpening phoneme] else []
        | None \<Rightarrow> [])
     else if phoneme_type = ''high_vowel'' then
       (case f1 feats of
          Some v \<Rightarrow> if v > 0 \<and> v > 450 then [Issue HighVowelTongue phoneme] else []
        | None \<Rightarrow> [])
     else if phoneme_type = ''sibilant_fricative'' then
       (case zcr_mean feats of
          Some z \<Rightarrow> if z < 0.15 then [Issue SibilantFriction phoneme] else []
        | None \<Rightarrow> [])
     else if phoneme_type = ''voiceless_stop'' then
       (case (energy_max feats, energy_mean feats) of
          (Some mx, Some mn) \<Rightarrow>
             if mn > 0 \<and> mx / mn < 2.5 then [Issue VoicelessStopBurst phoneme] else []
        | _ \<Rightarrow> [])
     else if phoneme_type = ''voiced_stop'' then
       (case voicing_rate feats of
          Some r \<Rightarrow> if r < 0.6 then [Issue VoicedStopVoicing phoneme] else []
        | None \<Rightarrow> [])
     else if phoneme_type = ''nasal'' then
       (case f1 feats of
          Some v \<Rightarrow> if v > 0 \<and> v > 500 then [Issue NasalResonance phoneme] else []
        | None \<Rightarrow> [])
     else [])"

text \<open>
  The four generic rules of \<open>score_phoneme_quality\<close>, each giving the amount it
  deducts and the issues it appends.
\<close>

definition duration_rule :: "phoneme_sym \<Rightarrow> real \<Rightarrow> real \<times> issue list" where
  "duration_rule phoneme duration =
    (case map_of duration_thresholds phoneme of
       None \<Rightarrow> (0, [])
     | Some (min_dur, max_dur) \<Rightarrow>
         if duration < min_dur * 0.7 then (30, [Issue DurTooShort phoneme])
         else if duration < min_dur then (20, [Issue DurShort phoneme])
         else if duration > max_dur * 1.5 then (25, [Issue DurTooLong phoneme])
         else if duration > max_dur then (15, [Issue DurLong phoneme])
         else (0, []))"

definition mfcc_rule :: "phoneme_sym \<Rightarrow> features \<Rightarrow> real \<times> issue list" where
  "mfcc_rule phoneme feats =
    (case mfcc_mean feats of
       None \<Rightarrow> (0, [])
     | Some ms \<Rightarrow>
         if length ms > 0 then
           (let mfcc_stability = np_std ms
            in if mfcc_stability > 30 then (20, [Issue Unstable phoneme])
               else if mfcc_stability > 20 then (10, [Issue SlightlyUnstable phoneme])
               else (0, []))
         else (0, []))"

definition energy_rule :: "phoneme_sym \<Rightarrow> features \<Rightarrow> real \<times> issue list" where
  "energy_rule phoneme feats =
    (case energy_mean feats of
       None \<Rightarrow> (0, [])
     | Some e \<Rightarrow>
         if e < 0.005 then (25, [Issue EnergyInsufficient phoneme])
         else if e < 0.01 then (15, [Issue EnergyLow phoneme])
         else (0, []))"

definition centroid_rule :: "phoneme_sym \<Rightarrow> features \<Rightarrow> real \<times> issue list" where
  "centroid_rule phoneme feats =
    (case spectral_centroid_mean feats of
       None \<Rightarrow> (0, [])
     | Some c \<Rightarrow>
         if phoneme \<in> set [''s'', ph_esh, ''f'', ph_theta] then
           (if c < 2500 then (20, [Issue FricativeLowCentroid phoneme]) else (0, []))
         else if phoneme \<in> set [ph_ae, ph_open_a_long, ph_turned_a] then
           (if c > 1500 then (15, [Issue LowVowelHighCentroid phoneme]) else (0, []))
         else if phoneme \<in> set [ph_i_long, ph_small_i] then
           (if c < 1000 \<or> c > 2200 then (15, [Issue HighVowelCentroid phoneme]) else (0, []))
         else (0, []))"

definition score_phoneme_quality :: "phoneme_sym \<Rightarrow> features \<Rightarrow> real \<Rightarrow> real \<times> issue list" where
  "score_phoneme_quality phoneme feats duration =
    (let (d1, i1) = duration_rule phoneme duration;
         (d2, i2) = mfcc_rule phoneme feats;
         (d3, i3) = energy_rule phoneme feats;
         (d4, i4) = centroid_rule phoneme feats;
         phoneme_type = classify_phoneme_detailed phoneme;
         type_issues = check_phoneme_type_quality phoneme phoneme_type feats duration;
         score = 80 - d1 - d2 - d3 - d4 - real (length type_issues) * 8
     in (max 0 (min 100 score), i1 @ i2 @ i3 @ i4 @ type_issues))"

definition get_quality_level :: "real \<Rightarrow> string" where
  "get_quality_level score =
    (if score \<ge> 90 then ''excellent''
     else if score \<ge> 75 then ''good''
     else if score \<ge> 60 then ''fair''
     else ''poor'')"

section \<open>PhonemeScorer: text to phonemes\<close>

subsection \<open>Python string operations on ASCII text\<close>

definition py_lower_char :: "char \<Rightarrow> char" where
  "py_lower_char c =
    (if (65::nat) \<le> of_char c \<and> of_char c \<le> (90::nat) then char_of (of_char c + (32::nat)) else c)"

definition py_lower :: "string \<Rightarrow> string" where
  "py_lower s = map py_lower_char s"

definition py_isspace :: "char \<Rightarrow> bool" where
  "py_isspace c = (of_char c \<in> set [9, 10, 11, 12, 13, 28, 29, 30, 31, 32 :: nat])"

definition py_strip :: "string \<Rightarrow> string" where
  "py_strip s = rev (dropWhile py_isspace (rev (dropWhile py_isspace s)))"

text \<open>\<open>s.split()\<close>: the maximal runs of non-whitespace characters, in order.\<close>

fun split_ws :: "string \<Rightarrow> string \<Rightarrow> string list" where
  "split_ws cur [] = (if cur = [] then [] else [cur])"
| "split_ws cur (c # cs) =
     (if py_isspace c then (if cur = [] then split_ws [] cs else cur # split_ws [] cs)
      else split_ws (cur @ [c]) cs)"

definition py_split :: "string \<Rightarrow> string list" where
  "py_split s = split_ws [] s"

text \<open>The class \<open>\w\<close> on ASCII: letters, digits and the underscore.\<close>

definition is_word_char :: "char \<Rightarrow> bool" where
  "is_word_char c =
    (let n = (of_char c :: nat)
     in (48 \<le> n \<and> n \<le> 57) \<or> (65 \<le> n \<and> n \<le> 90) \<or> n = 95 \<or> (97 \<le> n \<and> n \<le> 122))"

definition strip_non_word :: "string \<Rightarrow> string" where
  "strip_non_word w = filter is_word_char w"

subsection \<open>The tables\<close>

definition phoneme_map :: "(string \<times> phoneme_sym) list" where
  "phoneme_map =
    [(''a'', ph_ae), (''e'', ''e''), (''i'', ph_small_i), (''o'', ph_turned_a), (''u'', ph_upsilon),
     (''ah'', ph_wedge), (''ay'', ph_a_i), (''aw'', ph_a_u), (''oy'', ph_open_o_i),
     (''ee'', ph_i_long), (''oo'', ph_u_long), (''er'', ph_er_long), (''ar'', ph_open_a_long),
     (''p'', ''p''), (''b'', ''b''), (''t'', ''t''), (''d'', ''d''), (''k'', ''k''), (''g'', ''g''),
     (''f'', ''f''), (''v'', ''v''), (''th'', ph_theta), (''dh'', ph_eth), (''s'', ''s''), (''z'', ''z''),
     (''sh'', ph_esh), (''zh'', ph_ezh), (''ch'', ph_t_esh), (''j'', ph_d_ezh),
     (''m'', ''m''), (''n'', ''n''), (''ng'', ph_eng), (''l'', ''l''), (''r'', ''r''),
     (''w'', ''w''), (''y'', ''j''), (''h'', ''h'')]"

text \<open>The lexicon local to \<open>text_to_phonemes\<close>.\<close>

definition converter_rules :: "(string \<times> phoneme_sym list) list" where
  "converter_rules =
    [(''the'', [ph_eth, ph_schwa]),
     (''and'', [ph_ae, ''n'', ''d'']),
     (''have'', [''h'', ph_ae, ''v'']),
     (''that'', [ph_eth, ph_ae, ''t'']),
     (''for'', [''f'', ph_open_o_long]),
     (''are'', [ph_open_a_long]),
     (''with'', [''w'', ph_small_i, ph_theta]),
     (''his'', [''h'', ph_small_i, ''z'']),
     (''they'', [ph_eth, ph_e_i]),
     (''this'', [ph_eth, ph_small_i, ''s'']),
     (''from'', [''f'', ''r'', ph_turned_a, ''m'']),
     (''she'', [ph_esh, ph_i_long]),
     (''her'', [''h'', ph_er_long]),
     (''been'', [''b'', ph_i_long, ''n'']),
     (''than'', [ph_eth, ph_ae, ''n'']),
     (''its'', [ph_small_i, ''t'', ''s'']),
     (''now'', [''n'', ph_a_u]),
     (''more'', [''m'', ph_open_o_long]),
     (''very'', [''v'', ''e'', ''r'', ph_small_i]),
     (''what'', [''w'', ph_turned_a, ''t'']),
     (''know'', [''n'', ph_schwa_u]),
     (''just'', [ph_d_ezh, ph_wedge, ''s'', ''t'']),
     (''first'', [''f'', ph_er_long, ''s'', ''t'']),
     (''time'', [''t'', ph_a_i, ''m'']),
     (''people'', [''p'', ph_i_long, ''p'', ph_schwa, ''l''])]"

text \<open>The lexicon local to \<open>map_words_to_phonemes\<close>.\<close>

definition mapper_rules :: "(string \<times> phoneme_sym list) list" where
  "mapper_rules =
    [(''the'', [ph_eth, ph_schwa]),
     (''and'', [ph_ae, ''n'', ''d'']),
     (''have'', [''h'', ph_ae, ''v'']),
     (''that'', [ph_eth, ph_ae, ''t'']),
     (''for'', [''f'', ph_open_o_long]),
     (''are'', [ph_open_a_long]),
     (''with'', [''w'', ph_small_i, ph_theta]),
     (''his'', [''h'', ph_small_i, ''z'']),
     (''they'', [ph_eth, ph_e_i]),
     (''this'', [ph_eth, ph_small_i, ''s'']),
     (''from'', [''f'', ''r'', ph_turned_a, ''m'']),
     (''she'', [ph_esh, ph_i_long]),
     (''her'', [''h'', ph_er_long]),
     (''been'', [''b'', ph_i_long, ''n'']),
     (''than'', [ph_eth, ph_ae, ''n'']),
     (''its'', [ph_small_i, ''t'', ''s'']),
     (''now'', [''n'', ph_a_u]),
     (''more'', [''m'', ph_open_o_long]),
     (''very'', [''v'', ''e'', ''r'', ph_small_i]),
     (''what'', [''w'', ph_turned_a, ''t'']),
     (''know'', [''n'', ph_schwa_u]),
     (''just'', [ph_d_ezh, ph_wedge, ''s'', ''t'']),
     (''first'', [''f'', ph_er_long, ''s'', ''t'']),
     (''time'', [''t'', ph_a_i, ''m'']),
     (''people'', [''p'', ph_i_long, ''p'', ph_schwa, ''l'']),
     (''good'', [''g'', ph_upsilon, ''d'']),
     (''work'', [''w'', ph_er_long, ''k'']),
     (''school'', [''s'', ''k'', ph_u_long, ''l'']),
     (''world'', [''w'', ph_er_long, ''l'', ''d'']),
     (''great'', [''g'', ''r'', ph_e_i, ''t'']),
     (''think'', [ph_theta, ph_small_i, ph_eng, ''k'']),
     (''way'', [''w'', ph_e_i]),
     (''make'', [''m'', ph_e_i, ''k'']),
     (''today'', [''t'', ph_schwa, ''d'', ph_e_i]),
     (''help'', [''h'', ''e'', ''l'', ''p'']),
     (''home'', [''h'', ph_schwa_u, ''m'']),
     (''nice'', [''n'', ph_a_i, ''s'']),
     (''happy'', [''h'', ph_ae, ''p'', ph_small_i]),
     (''love'', [''l'', ph_wedge, ''v'']),
     (''like'', [''l'', ph_a_i, ''k'']),
     (''want'', [''w'', ph_turned_a, ''n'', ''t'']),
     (''need'', [''n'', ph_i_long, ''d'']),
     (''thank'', [ph_theta, ph_ae, ph_eng, ''k'']),
     (''you'', [''j'', ph_u_long]),
     (''hello'', [''h'', ph_schwa, ''l'', ph_schwa_u]),
     (''water'', [''w'', ph_open_o_long, ''t'', ph_schwa_r]),
     (''food'', [''f'', ph_u_long, ''d'']),
     (''money'', [''m'', ph_wedge, ''n'', ph_small_i]),
     (''house'', [''h'', ph_a_u, ''s'']),
     (''friend'', [''f'', ''r'', ''e'', ''n'', ''d'']),
     (''family'', [''f'', ph_ae, ''m'', ph_small_i, ''l'', ph_small_i]),
     (''book'', [''b'', ph_upsilon, ''k'']),
     (''music'', [''m'', ''j'', ph_u_long, ''z'', ph_small_i, ''k'']),
     (''beautiful'', [''b'', ''j'', ph_u_long, ''t'', ph_small_i, ''f'', ph_upsilon, ''l'']),
     (''important'', [ph_small_i, ''m'', ''p'', ph_open_o_long, ''t'', ph_schwa, ''n'', ''t'']),
     (''different'', [''d'', ph_small_i, ''f'', ph_schwa_r, ph_schwa, ''n'', ''t'']),
     (''because'', [''b'', ph_small_i, ''k'', ph_turned_a, ''z''])]"

subsection \<open>The two conversions\<close>

text \<open>The fallback of both: one phoneme per character, unknown characters kept.\<close>

definition letters_to_phonemes :: "string \<Rightarrow> phoneme_sym list" where
  "letters_to_phonemes word_clean =
    map (\<lambda>c. case map_of phoneme_map [c] of Some p \<Rightarrow> p | None \<Rightarrow> [c]) word_clean"

definition text_to_phonemes :: "string \<Rightarrow> phoneme_sym list" where
  "text_to_phonemes text =
    concat (map (\<lambda>word.
        let word_clean = strip_non_word word
        in case map_of converter_rules word_clean of
             Some ps \<Rightarrow> ps
           | None \<Rightarrow> letters_to_phonemes word_clean)
      (py_split (py_strip (py_lower text))))"

definition map_words_to_phonemes :: "string list \<Rightarrow> (string \<rightharpoonup> phoneme_sym list)" where
  "map_words_to_phonemes words =
    foldl (\<lambda>word_phoneme_mapping word.
        let word_clean = strip_non_word (py_lower word)
        in case map_of mapper_rules word_clean of
             Some ps \<Rightarrow> word_phoneme_mapping(word_clean \<mapsto> ps)
           | None \<Rightarrow> word_phoneme_mapping(word_clean \<mapsto> letters_to_phonemes word_clean))
      Map.empty words"

text \<open>
  The phonemes the mapping gives to the words of a text, one word after the other, with
  the words split as \<open>analyze_pronunciation_detailed\<close> splits them.
\<close>

definition mapping_concat :: "string \<Rightarrow> phoneme_sym list" where
  "mapping_concat text =
    (let words = py_split (py_lower text);
         m = map_words_to_phonemes words
     in concat (map (\<lambda>word. case m (strip_non_word (py_lower word)) of
                                Some ps \<Rightarrow> ps | None \<Rightarrow> []) words))"

text \<open>What the mapper gives to a cleaned word.\<close>

definition mapper_value :: "string \<Rightarrow> phoneme_sym list" where
  "mapper_value k = (case map_of mapper_rules k of Some ps \<Rightarrow> ps | None \<Rightarrow> letters_to_phonemes k)"

section \<open>PhonemeAligner\<close>

text \<open>An aligned segment is the tuple (phoneme, start time, end time), in seconds.\<close>

type_synonym segment = "phoneme_sym \<times> real \<times> real"

















section \<open>PhonemeScorer: the analysis\<close>

record PhonemeScore =
  phoneme :: phoneme_sym
  start_time :: real
  end_time :: real
  score :: real
  confidence :: real
  quality :: string
  issues :: "issue list"

subsection \<open>Alignment and features\<close>

text \<open>
  \<open>force_align_ctc\<close> runs the recognition model and discards its output; both its
  \<open>try\<close> branch and its handler then compute the same uniform split of the audio
  duration, so the result does not depend on the model.
\<close>

definition force_align_ctc :: "real list \<Rightarrow> phoneme_sym list \<Rightarrow> nat \<Rightarrow> exn + segment list" where
  "force_align_ctc audio_data phoneme_sequence sr =
    (if sr = 0 then Inl ZeroDivisionError
     else
       let total_duration = real (length audio_data) / real sr;
           phoneme_count = length phoneme_sequence
       in if phoneme_count = 0 then Inr []
          else
            let avg_duration = total_duration / real phoneme_count
            in Inr (map (\<lambda>(i, phoneme). (phoneme, real i * avg_duration, real (i + 1) * avg_duration))
                     (enumerate 0 phoneme_sequence)))"

text \<open>
  What the librosa calls of \<open>PhonemeScorer.extract_acoustic_features\<close> give for one
  buffer: the pitch track, the MFCC matrix (one row per coefficient) and the frame
  values of spectral centroid, RMS energy and zero-crossing rate. The calls are library
  code and enter as a parameter of type \<open>librosa\<close>, which may raise.
\<close>

record frames =
  yin_f0 :: "real list"
  mfcc :: "real list list"
  spectral_centroids :: "real list"
  rms :: "real list"
  zcr :: "real list"

type_synonym librosa = "real list \<Rightarrow> nat \<Rightarrow> exn + frames"

definition extract_acoustic_features :: "librosa \<Rightarrow> real list \<Rightarrow> nat \<Rightarrow> features" where
  "extract_acoustic_features lib audio_data sr =
    (case lib audio_data sr of
       Inl e \<Rightarrow> no_features
     | Inr fr \<Rightarrow>
         let voiced = filter (\<lambda>f. f > 0) (yin_f0 fr)
         in \<lparr>mfcc_mean = Some (map np_mean (mfcc fr)),
             energy_mean = Some (np_mean (rms fr)),
             spectral_centroid_mean = Some (np_mean (spectral_centroids fr)),
             f1 = None,
             zcr_mean = Some (np_mean (zcr fr)),
             energy_max = None,
             voicing_rate = None,
             f0_mean = Some (if voiced \<noteq> [] then np_mean voiced else 0),
             f0_std = Some (if voiced \<noteq> [] then np_std voiced else 0)\<rparr>)"

subsection \<open>Scoring the aligned segments\<close>

definition py_slice :: "'a list \<Rightarrow> nat \<Rightarrow> nat \<Rightarrow> 'a list" where
  "py_slice xs start stop = take (stop - start) (drop start xs)"

definition make_confidence :: "issue list \<Rightarrow> real" where
  "make_confidence iss = min 1.0 (max 0.3 (1.0 - real (length iss) * 0.1))"

text \<open>One round of the loop over the alignments: a segment with no samples is skipped.\<close>

definition score_segment :: "librosa \<Rightarrow> real list \<Rightarrow> nat \<Rightarrow> segment \<Rightarrow> PhonemeScore option" where
  "score_segment lib audio_data sr seg =
    (case seg of (ph, start, stop) \<Rightarrow>
       let start_sample = nat \<lfloor>start * real sr\<rfloor>;
           end_sample = nat \<lfloor>stop * real sr\<rfloor>;
           phoneme_audio = py_slice audio_data start_sample end_sample
       in if length phoneme_audio > 0 then
            (let phoneme_features = extract_acoustic_features lib phoneme_audio sr;
                 duration = stop - start;
                 (sc, iss) = score_phoneme_quality ph phoneme_features duration
             in Some \<lparr>phoneme = ph, start_time = start, end_time = stop, score = sc,
                       confidence = make_confidence iss, quality = get_quality_level sc,
                       issues = iss\<rparr>)
          else None)"

definition score_segments :: "librosa \<Rightarrow> real list \<Rightarrow> nat \<Rightarrow> segment list \<Rightarrow> PhonemeScore list" where
  "score_segments lib audio_data sr alignments =
    List.map_filter (score_segment lib audio_data sr) alignments"

subsection \<open>The overall score\<close>

definition quality_weight :: "string \<Rightarrow> real" where
  "quality_weight q =
    (case map_of [(''excellent'', 1.0), (''good'', 0.9), (''fair'', 0.7), (''poor'', 0.4)] q of
       Some w \<Rightarrow> w | None \<Rightarrow> 0.5)"

definition is_severe :: "issue \<Rightarrow> bool" where
  "is_severe i = (issue_has GuoDuan i \<or> issue_has GuoChang i \<or> issue_has NengLiangBuZu i)"

definition poor_ratio :: "PhonemeScore list \<Rightarrow> real" where
  "poor_ratio phoneme_scores =
    real (length (filter (\<lambda>ps. quality ps = ''poor'') phoneme_scores)) / real (length phoneme_scores)"

definition fair_ratio :: "PhonemeScore list \<Rightarrow> real" where
  "fair_ratio phoneme_scores =
    real (length (filter (\<lambda>ps. quality ps = ''fair'') phoneme_scores)) / real (length phoneme_scores)"

definition base_score :: "PhonemeScore list \<Rightarrow> real" where
  "base_score phoneme_scores =
    np_mean (map (\<lambda>ps. score ps * confidence ps * quality_weight (quality ps)) phoneme_scores)"

definition penalty :: "PhonemeScore list \<Rightarrow> issue list \<Rightarrow> real" where
  "penalty phoneme_scores all_issues =
    (let total_issues = length all_issues;
         severe_issues = filter is_severe all_issues
     in (if poor_ratio phoneme_scores > 0.3 then 15
         else if poor_ratio phoneme_scores > 0.2 then 10 else 0)
      + (if fair_ratio phoneme_scores > 0.4 then 8 else 0)
      + (if real total_issues > real (length phoneme_scores) * 0.5 then 12
         else if real total_issues > real (length phoneme_scores) * 0.3 then 6 else 0)
      + (if length severe_issues > 3 then 10 else 0))"

definition compute_overall_score :: "PhonemeScore list \<Rightarrow> issue list \<Rightarrow> real" where
  "compute_overall_score phoneme_scores all_issues =
    (if phoneme_scores \<noteq> [] then
       (let severe_issues = filter is_severe all_issues;
            overall0 = max 0 (min 100 (base_score phoneme_scores - penalty phoneme_scores all_issues));
            overall1 = (if overall0 > 85 \<and> (poor_ratio phoneme_scores > 0.1 \<or> length severe_issues > 1)
                        then min 85 (overall0 - 5) else overall0);
            overall2 = (if overall1 > 75 \<and> poor_ratio phoneme_scores > 0.2
                        then min 75 (overall1 - 5) else overall1)
        in overall2)
     else 0)"

subsection \<open>Word-level analysis\<close>

text \<open>
  A word score is a dict in the source; its keys are the fields of \<open>WordScore\<close>, with
  the prefix \<open>w_\<close>. The entry of one phoneme inside it is the tuple (phoneme, score,
  quality, issues). The issue list of a word holds phoneme issues or the one fixed
  message of the sentinel ("no detailed analysis of this word is available").
  \<open>list(set(xs))\<close> is modelled by \<^const>\<open>remdups\<close>: the elements of \<open>xs\<close> once
  each, Python leaving their order open.
\<close>

datatype word_issue = PhonemeIssue issue | NoAnalysisAvailable

datatype phoneme_tip =
  TipTheta | TipEth | TipR | TipL | TipOpenVowel | TipHighVowel | TipSZ | TipShZh

datatype word_suggestion =
    RhythmAdvice string
  | ClarityAdvice string
  | PracticePhonemes string "phoneme_sym list"
  | RefineAdvice string
  | WordTip string
  | PhonemeTip phoneme_tip
  | Praise string
  | PracticeWord string

record WordScore =
  w_word :: string
  w_score :: real
  w_quality :: string
  w_phonemes :: "phoneme_sym list"
  w_phoneme_scores :: "(phoneme_sym \<times> real \<times> string \<times> issue list) list"
  w_issues :: "word_issue list"
  w_suggestions :: "word_suggestion list"
  w_needs_improvement :: bool

definition word_tips :: "string list" where
  "word_tips = [''the'', ''this'', ''that'', ''think'', ''thank'', ''with'', ''water'', ''work'',
     ''world'', ''beautiful'', ''important'', ''different'', ''school'', ''people'', ''because'']"

definition phoneme_tip_of :: "phoneme_sym \<Rightarrow> word_suggestion list" where
  "phoneme_tip_of ph =
    (if ph = ph_theta then [PhonemeTip TipTheta]
     else if ph = ph_eth then [PhonemeTip TipEth]
     else if ph = ''r'' then [PhonemeTip TipR]
     else if ph = ''l'' then [PhonemeTip TipL]
     else if ph \<in> set [ph_ae, ph_open_a_long, ph_turned_a] then [PhonemeTip TipOpenVowel]
     else if ph \<in> set [ph_i_long, ph_small_i] then [PhonemeTip TipHighVowel]
     else if ph \<in> set [''s'', ''z''] then [PhonemeTip TipSZ]
     else if ph \<in> set [ph_esh, ph_ezh] then [PhonemeTip TipShZh]
     else [])"

definition get_word_specific_suggestions :: "string \<Rightarrow> phoneme_sym list \<Rightarrow> word_suggestion list" where
  "get_word_specific_suggestions word problematic_phonemes =
    (if word \<in> set word_tips then [WordTip word] else [])
    @ concat (map phoneme_tip_of problematic_phonemes)"

definition generate_word_suggestions ::
  "string \<Rightarrow> PhonemeScore list \<Rightarrow> issue list \<Rightarrow> word_suggestion list" where
  "generate_word_suggestions word phoneme_scores iss =
    (let poor_phonemes = map phoneme (filter (\<lambda>ps. quality ps = ''poor'') phoneme_scores);
         fair_phonemes = map phoneme (filter (\<lambda>ps. quality ps = ''fair'') phoneme_scores);
         timing_issues = filter (\<lambda>i. issue_has GuoDuan i \<or> issue_has GuoChang i) iss;
         clarity_issues = filter (\<lambda>i. issue_has BuWenDing i \<or> issue_has QingXi i
                                        \<or> issue_has NengLiangBuZu i) iss
     in (if timing_issues \<noteq> [] then [RhythmAdvice word] else [])
      @ (if clarity_issues \<noteq> [] then [ClarityAdvice word] else [])
      @ (if poor_phonemes \<noteq> [] then [PracticePhonemes word (remdups poor_phonemes)] else [])
      @ (if fair_phonemes \<noteq> [] \<and> poor_phonemes = [] then [RefineAdvice word] else [])
      @ get_word_specific_suggestions word (poor_phonemes @ fair_phonemes)
      @ (if poor_phonemes = [] \<and> fair_phonemes = [] \<and> timing_issues = [] \<and> clarity_issues = []
         then [Praise word] else []))"

text \<open>List indexing \<open>xs[i]\<close> with a non-negative index: IndexError out of range.\<close>

definition py_get :: "'a list \<Rightarrow> nat \<Rightarrow> exn + 'a" where
  "py_get xs i = (if i < length xs then Inr (xs ! i) else Inl IndexError)"

text \<open>
  The search \<open>for i in range(...)\<close> around the cursor: the first position of the window
  whose phoneme is the expected one, with the cursor value that follows it.
\<close>

fun search_window :: "PhonemeScore list \<Rightarrow> phoneme_sym \<Rightarrow> nat list \<Rightarrow> exn + (PhonemeScore \<times> nat) option" where
  "search_window phoneme_scores ph [] = Inr None"
| "search_window phoneme_scores ph (i # rest) =
     (case py_get phoneme_scores i of
        Inl e \<Rightarrow> Inl e
      | Inr s \<Rightarrow> if phoneme s = ph then Inr (Some (s, i + 1))
                 else search_window phoneme_scores ph rest)"

text \<open>
  The loop over the expected phonemes of one word: the scores found, and the cursor
  \<open>current_phoneme_index\<close> after the word.
\<close>

fun collect_word :: "PhonemeScore list \<Rightarrow> phoneme_sym list \<Rightarrow> nat \<Rightarrow> exn + (PhonemeScore list \<times> nat)" where
  "collect_word phoneme_scores [] idx = Inr ([], idx)"
| "collect_word phoneme_scores (ph # rest) idx =
     (if idx < length phoneme_scores then
        (case py_get phoneme_scores idx of
           Inl e \<Rightarrow> Inl e
         | Inr cur \<Rightarrow>
             if phoneme cur = ph then
               (case collect_word phoneme_scores rest (idx + 1) of
                  Inl e \<Rightarrow> Inl e
                | Inr (found, idx') \<Rightarrow> Inr (cur # found, idx'))
             else
               (case search_window phoneme_scores ph
                       [idx - 2 ..< min (length phoneme_scores) (idx + 3)] of
                  Inl e \<Rightarrow> Inl e
                | Inr None \<Rightarrow> collect_word phoneme_scores rest idx
                | Inr (Some (s, idx1)) \<Rightarrow>
                    (case collect_word phoneme_scores rest idx1 of
                       Inl e \<Rightarrow> Inl e
                     | Inr (found, idx') \<Rightarrow> Inr (s # found, idx'))))
      else collect_word phoneme_scores rest idx)"

definition word_quality_weight :: "string \<Rightarrow> real" where
  "word_quality_weight q =
    (case map_of [(''excellent'', 1.0), (''good'', 1.1), (''fair'', 1.3), (''poor'', 1.5)] q of
       Some w \<Rightarrow> w | None \<Rightarrow> 1.0)"

definition is_severe_for_word :: "issue \<Rightarrow> bool" where
  "is_severe_for_word i =
    (issue_has GuoDuan i \<or> issue_has GuoChang i \<or> issue_has NengLiangBuZu i \<or> issue_has BuWenDing i)"

text \<open>\<open>round(x, 1)\<close>: to one decimal, a tie going to the even digit.\<close>

definition py_round1 :: "real \<Rightarrow> real" where
  "py_round1 x =
    (let y = 10 * x; f = \<lfloor>y\<rfloor>; d = y - of_int f
     in of_int (if d < 1/2 then f else if d > 1/2 then f + 1 else if even f then f else f + 1) / 10)"

definition sentinel_word :: "string \<Rightarrow> phoneme_sym list \<Rightarrow> WordScore" where
  "sentinel_word word_clean word_phonemes =
    \<lparr>w_word = word_clean, w_score = 0, w_quality = ''unknown'', w_phonemes = word_phonemes,
     w_phoneme_scores = [], w_issues = [NoAnalysisAvailable],
     w_suggestions = [PracticeWord word_clean], w_needs_improvement = True\<rparr>"

definition scored_word :: "string \<Rightarrow> phoneme_sym list \<Rightarrow> PhonemeScore list \<Rightarrow> WordScore" where
  "scored_word word_clean word_phonemes word_phoneme_scores =
    (let word_issues = concat (map issues word_phoneme_scores);
         weighted_scores = map (\<lambda>ps. score ps / word_quality_weight (quality ps)) word_phoneme_scores;
         word_score0 = np_mean weighted_scores;
         severe_issues = filter is_severe_for_word word_issues;
         word_score = (if real (length severe_issues) > real (length word_phonemes) * 0.3
                       then word_score0 * 0.85 else word_score0)
     in \<lparr>w_word = word_clean, w_score = py_round1 word_score,
         w_quality = get_quality_level word_score, w_phonemes = word_phonemes,
         w_phoneme_scores = map (\<lambda>ps. (phoneme ps, score ps, quality ps, issues ps)) word_phoneme_scores,
         w_issues = map PhonemeIssue (remdups word_issues),
         w_suggestions = generate_word_suggestions word_clean word_phoneme_scores word_issues,
         w_needs_improvement = (word_score < 70 \<or> length severe_issues > 0)\<rparr>)"

text \<open>
  The loop over the words, with the cursor threaded from word to word. A word whose
  cleaned form is not a key of the mapping gets no entry.
\<close>

fun word_loop ::
  "(string \<rightharpoonup> phoneme_sym list) \<Rightarrow> PhonemeScore list \<Rightarrow> nat \<Rightarrow> string list \<Rightarrow> exn + WordScore list" where
  "word_loop word_phoneme_mapping phoneme_scores idx [] = Inr []"
| "word_loop word_phoneme_mapping phoneme_scores idx (word # rest) =
     (let word_clean = strip_non_word (py_lower word)
      in case word_phoneme_mapping word_clean of
           None \<Rightarrow> word_loop word_phoneme_mapping phoneme_scores idx rest
         | Some word_phonemes \<Rightarrow>
             (case collect_word phoneme_scores word_phonemes idx of
                Inl e \<Rightarrow> Inl e
              | Inr (word_phoneme_scores, idx') \<Rightarrow>
                  (case word_loop word_phoneme_mapping phoneme_scores idx' rest of
                     Inl e \<Rightarrow> Inl e
                   | Inr word_scores \<Rightarrow>
                       Inr ((if word_phoneme_scores \<noteq> []
                             then scored_word word_clean word_phonemes word_phoneme_scores
                             else sentinel_word word_clean word_phonemes) # word_scores))))"

definition analyze_word_pronunciation ::
  "string list \<Rightarrow> (string \<rightharpoonup> phoneme_sym list) \<Rightarrow> PhonemeScore list \<Rightarrow> exn + WordScore list" where
  "analyze_word_pronunciation words word_phoneme_mapping phoneme_scores =
    word_loop word_phoneme_mapping phoneme_scores 0 words"

subsection \<open>The detailed analysis\<close>

text \<open>
  The result record. An entry of \<open>pronunciation_issues\<close> is a phoneme issue, or the
  message of the handler ("error during the analysis: " and the exception), or the fixed
  message of the simplified result ("no phoneme-level analysis was made"). The field
  \<open>improvement_suggestions\<close>, display text that nothing reads back, is left out.
\<close>

datatype result_issue = ScoredIssue issue | AnalysisFailed exn | NoPhonemeLevelAnalysis

record duration_info =
  total_duration :: real
  speech_rate :: "real option"
  avg_phoneme_duration :: "real option"

record DetailedPronunciationResult =
  overall_score :: real
  phoneme_scores :: "PhonemeScore list"
  word_scores :: "WordScore list"
  pronunciation_issues :: "result_issue list"
  duration_analysis :: duration_info
  pitch_analysis :: "(real \<times> real) option"

definition analyze_body ::
  "librosa \<Rightarrow> real list \<Rightarrow> string \<Rightarrow> nat \<Rightarrow> exn + DetailedPronunciationResult" where
  "analyze_body lib audio_data reference_text sr =
    (let phoneme_sequence = text_to_phonemes reference_text;
         words = py_split (py_lower reference_text);
         word_phoneme_mapping = map_words_to_phonemes words
     in case force_align_ctc audio_data phoneme_sequence sr of
          Inl e \<Rightarrow> Inl e
        | Inr alignments \<Rightarrow>
            let global_features = extract_acoustic_features lib audio_data sr;
                scores = score_segments lib audio_data sr alignments;
                all_issues = concat (map issues scores)
            in case analyze_word_pronunciation words word_phoneme_mapping scores of
                 Inl e \<Rightarrow> Inl e
               | Inr wscores \<Rightarrow>
                   let overall = compute_overall_score scores all_issues;
                       seconds = real (length audio_data) / real sr;
                       dur = \<lparr>total_duration = seconds,
                              speech_rate = Some (if length audio_data > 0
                                                  then real (length phoneme_sequence) / seconds else 0),
                              avg_phoneme_duration = Some (if scores \<noteq> []
                                  then np_mean (map (\<lambda>ps. end_time ps - start_time ps) scores) else 0)\<rparr>
                   in case f0_mean global_features of
                        None \<Rightarrow>
                          Inr \<lparr>overall_score = overall, phoneme_scores = scores, word_scores = wscores,
                               pronunciation_issues = map ScoredIssue (remdups all_issues),
                               duration_analysis = dur, pitch_analysis = None\<rparr>
                      | Some m \<Rightarrow>
                          (case f0_std global_features of
                             None \<Rightarrow> Inl (KeyError ''f0_std'')
                           | Some sd \<Rightarrow>
                               Inr \<lparr>overall_score = overall, phoneme_scores = scores,
                                    word_scores = wscores,
                                    pronunciation_issues = map ScoredIssue (remdups all_issues),
                                    duration_analysis = dur, pitch_analysis = Some (m, sd)\<rparr>))"

text \<open>
  The handler of \<open>analyze_pronunciation_detailed\<close> turns any exception of the body
  into the default result. It divides by \<open>sr\<close> itself when the buffer is not empty.
\<close>

definition analyze_pronunciation_detailed ::
  "librosa \<Rightarrow> real list \<Rightarrow> string \<Rightarrow> nat \<Rightarrow> exn + DetailedPronunciationResult" where
  "analyze_pronunciation_detailed lib audio_data reference_text sr =
    (case analyze_body lib audio_data reference_text sr of
       Inr result \<Rightarrow> Inr result
     | Inl e \<Rightarrow>
         if length audio_data > 0 \<and> sr = 0 then Inl ZeroDivisionError
         else Inr \<lparr>overall_score = 0, phoneme_scores = [], word_scores = [],
                   pronunciation_issues = [AnalysisFailed e],
                   duration_analysis =
                     \<lparr>total_duration = (if length audio_data > 0
                                         then real (length audio_data) / real sr else 0),
                      speech_rate = None, avg_phoneme_duration = None\<rparr>,
                   pitch_analysis = None\<rparr>)"

section \<open>The entry point \<open>score_pronunciation\<close>\<close>

text \<open>
  What the entry point takes from outside the program: whether the imports of
  \<open>_import_dependencies\<close> succeed, which model files exist, the recognition itself
  (loading the model, running it on the normalised audio and decoding; it gives the
  transcription or raises), the edit distance of the Levenshtein package when one of
  the two imports works, whether the phoneme modules were imported, and the librosa
  calls of the scorer. The fixed messages are the byte strings of the source texts.
\<close>

record environment =
  deps_available :: bool
  model_name :: string
  model_dir_exists :: bool
  model_file_exists :: "string \<Rightarrow> bool"
  recognise :: "real list \<Rightarrow> exn + string"
  levenshtein :: "(string \<Rightarrow> string \<Rightarrow> nat) option"
  phoneme_scoring_available :: bool
  scorer_librosa :: librosa

definition msg_deps_missing :: string where
  "msg_deps_missing =
     [CHR 0xE5, CHR 0xBF, CHR 0x85, CHR 0xE8, CHR 0xA6, CHR 0x81, CHR 0xE7, CHR 0x9A,
     CHR 0x84, CHR 0xE4, CHR 0xBE, CHR 0x9D, CHR 0xE8, CHR 0xB5, CHR 0x96, CHR 0xE5,
     CHR 0xBA, CHR 0x93, CHR 0xE6, CHR 0x9C, CHR 0xAA, CHR 0xE5, CHR 0xAE, CHR 0x89,
     CHR 0xE8, CHR 0xA3, CHR 0x85, CHR 0xEF, CHR 0xBC, CHR 0x8C, CHR 0xE8, CHR 0xAF,
     CHR 0xB7, CHR 0xE8, CHR 0xBF, CHR 0x90, CHR 0xE8, CHR 0xA1, CHR 0x8C, CHR '':'',
     CHR '' '']"

definition msg_audio_empty :: string where
  "msg_audio_empty =
     [CHR 0xE9, CHR 0x9F, CHR 0xB3, CHR 0xE9, CHR 0xA2, CHR 0x91, CHR 0xE6, CHR 0x95,
     CHR 0xB0, CHR 0xE6, CHR 0x8D, CHR 0xAE, CHR 0xE4, CHR 0xB8, CHR 0xBA, CHR 0xE7,
     CHR 0xA9, CHR 0xBA]"

definition msg_model_path_missing :: string where
  "msg_model_path_missing =
     [CHR 0xE6, CHR 0xA8, CHR 0xA1, CHR 0xE5, CHR 0x9E, CHR 0x8B, CHR 0xE8, CHR 0xB7,
     CHR 0xAF, CHR 0xE5, CHR 0xBE, CHR 0x84, CHR 0xE4, CHR 0xB8, CHR 0x8D, CHR 0xE5,
     CHR 0xAD, CHR 0x98, CHR 0xE5, CHR 0x9C, CHR 0xA8, CHR '':'', CHR '' '']"

definition msg_model_file_missing :: string where
  "msg_model_file_missing =
     [CHR 0xE6, CHR 0xA8, CHR 0xA1, CHR 0xE5, CHR 0x9E, CHR 0x8B, CHR 0xE6, CHR 0x96,
     CHR 0x87, CHR 0xE4, CHR 0xBB, CHR 0xB6, CHR 0xE7, CHR 0xBC, CHR 0xBA, CHR 0xE5,
     CHR 0xA4, CHR 0xB1, CHR '':'', CHR '' '']"

definition msg_scoring_failed :: string where
  "msg_scoring_failed =
     [CHR 0xE5, CHR 0x8F, CHR 0x91, CHR 0xE9, CHR 0x9F, CHR 0xB3, CHR 0xE8, CHR 0xAF,
     CHR 0x84, CHR 0xE5, CHR 0x88, CHR 0x86, CHR 0xE5, CHR 0xA4, CHR 0xB1, CHR 0xE8,
     CHR 0xB4, CHR 0xA5, CHR '':'', CHR '' '']"

definition msg_gpu_memory :: string where
  "msg_gpu_memory =
     [CHR ''G'', CHR ''P'', CHR ''U'', CHR 0xE5, CHR 0x86, CHR 0x85, CHR 0xE5, CHR 0xAD,
     CHR 0x98, CHR 0xE4, CHR 0xB8, CHR 0x8D, CHR 0xE8, CHR 0xB6, CHR 0xB3, CHR 0xEF,
     CHR 0xBC, CHR 0x8C, CHR 0xE5, CHR 0xBB, CHR 0xBA, CHR 0xE8, CHR 0xAE, CHR 0xAE,
     CHR 0xE4, CHR 0xBD, CHR 0xBF, CHR 0xE7, CHR 0x94, CHR 0xA8, CHR ''C'', CHR ''P'',
     CHR ''U'', CHR 0xE6, CHR 0xA8, CHR 0xA1, CHR 0xE5, CHR 0xBC, CHR 0x8F, CHR 0xE6,
     CHR 0x88, CHR 0x96, CHR 0xE5, CHR 0x87, CHR 0x8F, CHR 0xE5, CHR 0xB0, CHR 0x91,
     CHR 0xE9, CHR 0x9F, CHR 0xB3, CHR 0xE9, CHR 0xA2, CHR 0x91, CHR 0xE9, CHR 0x95,
     CHR 0xBF, CHR 0xE5, CHR 0xBA, CHR 0xA6]"

definition msg_model_load_failed :: string where
  "msg_model_load_failed =
     [CHR 0xE6, CHR 0xA8, CHR 0xA1, CHR 0xE5, CHR 0x9E, CHR 0x8B, CHR 0xE5, CHR 0x8A,
     CHR 0xA0, CHR 0xE8, CHR 0xBD, CHR 0xBD, CHR 0xE5, CHR 0xA4, CHR 0xB1, CHR 0xE8,
     CHR 0xB4, CHR 0xA5, CHR 0xEF, CHR 0xBC, CHR 0x8C, CHR 0xE8, CHR 0xAF, CHR 0xB7,
     CHR 0xE6, CHR 0xA3, CHR 0x80, CHR 0xE6, CHR 0x9F, CHR 0xA5, CHR 0xE6, CHR 0xA8,
     CHR 0xA1, CHR 0xE5, CHR 0x9E, CHR 0x8B, CHR 0xE6, CHR 0x96, CHR 0x87, CHR 0xE4,
     CHR 0xBB, CHR 0xB6, CHR 0xE6, CHR 0x98, CHR 0xAF, CHR 0xE5, CHR 0x90, CHR 0xA6,
     CHR 0xE5, CHR 0xAE, CHR 0x8C, CHR 0xE6, CHR 0x95, CHR 0xB4]"

definition msg_audio_failed :: string where
  "msg_audio_failed =
     [CHR 0xE9, CHR 0x9F, CHR 0xB3, CHR 0xE9, CHR 0xA2, CHR 0x91, CHR 0xE5, CHR 0xA4,
     CHR 0x84, CHR 0xE7, CHR 0x90, CHR 0x86, CHR 0xE5, CHR 0xA4, CHR 0xB1, CHR 0xE8,
     CHR 0xB4, CHR 0xA5, CHR 0xEF, CHR 0xBC, CHR 0x8C, CHR 0xE8, CHR 0xAF, CHR 0xB7,
     CHR 0xE6, CHR 0xA3, CHR 0x80, CHR 0xE6, CHR 0x9F, CHR 0xA5, CHR 0xE9, CHR 0x9F,
     CHR 0xB3, CHR 0xE9, CHR 0xA2, CHR 0x91, CHR 0xE6, CHR 0xA0, CHR 0xBC, CHR 0xE5,
     CHR 0xBC, CHR 0x8F, CHR 0xE5, CHR 0x92, CHR 0x8C, CHR 0xE9, CHR 0x95, CHR 0xBF,
     CHR 0xE5, CHR 0xBA, CHR 0xA6]"

definition msg_unknown_error :: string where
  "msg_unknown_error =
     [CHR 0xE6, CHR 0x9C, CHR 0xAA, CHR 0xE7, CHR 0x9F, CHR 0xA5, CHR 0xE9, CHR 0x94,
     CHR 0x99, CHR 0xE8, CHR 0xAF, CHR 0xAF, CHR '':'', CHR '' '']"

datatype outcome =
    Score real
  | Detailed DetailedPronunciationResult
  | SimpleDict real string string

definition create_simple_detailed_result :: "environment \<Rightarrow> real \<Rightarrow> string \<Rightarrow> string \<Rightarrow> outcome" where
  "create_simple_detailed_result env sc transcription reference_text =
    (if \<not> phoneme_scoring_available env then SimpleDict sc transcription reference_text
     else Detailed \<lparr>overall_score = sc, phoneme_scores = [], word_scores = [],
                     pronunciation_issues = [NoPhonemeLevelAnalysis],
                     duration_analysis =
                       \<lparr>total_duration = 0, speech_rate = None, avg_phoneme_duration = None\<rparr>,
                     pitch_analysis = None\<rparr>)"

definition normalise :: "real list \<Rightarrow> real list" where
  "normalise audio_data =
    (let peak = Max (set (map abs audio_data))
     in if peak > 0 then map (\<lambda>x. x / peak) audio_data else audio_data)"

definition improved_similarity :: "string \<Rightarrow> string \<Rightarrow> real" where
  "improved_similarity s1 s2 =
    (let str1 = py_strip (py_lower s1); str2 = py_strip (py_lower s2)
     in if length str1 = 0 \<or> length str2 = 0 then 0
        else
          let char_similarity = real (length (filter (\<lambda>c. c \<in> set str2) str1))
                                / real (max (length str1) (length str2));
              words1 = remdups (py_split str1);
              words2 = remdups (py_split str2);
              word_similarity =
                (if length words1 = 0 \<or> length words2 = 0 then 0
                 else real (length (filter (\<lambda>w. w \<in> set words2) words1))
                      / real (max (length words1) (length words2)))
          in char_similarity * 0.4 + word_similarity * 0.6)"

definition levenshtein_score :: "(string \<Rightarrow> string \<Rightarrow> nat) \<Rightarrow> string \<Rightarrow> string \<Rightarrow> real" where
  "levenshtein_score distance transcription reference_text =
    (let distance_score = distance (py_lower transcription) (py_lower reference_text);
         max_distance = max (length transcription) (length reference_text);
         sc = (if max_distance = 0 then 100
               else 100 * (1 - real distance_score / real max_distance))
     in max 0 (min sc 100))"

definition required_files :: "string list" where
  "required_files = [''config.json'', ''pytorch_model.bin'', ''vocab.json'']"

definition path_join :: "string \<Rightarrow> string \<Rightarrow> string" where
  "path_join dir file = dir @ ''/'' @ file"

definition score_body :: "environment \<Rightarrow> real list \<Rightarrow> string \<Rightarrow> bool \<Rightarrow> exn + outcome" where
  "score_body env audio_data reference_text detailed =
    (if \<not> deps_available env
       then Inl (ImportError (msg_deps_missing @ ''pip install -r requirements.txt''))
     else if length audio_data = 0 then Inl (ValueError msg_audio_empty)
     else if \<not> model_dir_exists env
       then Inl (FileNotFoundError (msg_model_path_missing @ model_name env))
     else
       (case find (\<lambda>file. \<not> model_file_exists env file) required_files of
          Some file \<Rightarrow>
            Inl (FileNotFoundError (msg_model_file_missing @ path_join (model_name env) file))
        | None \<Rightarrow>
            let audio1 = normalise audio_data
            in case recognise env audio1 of
                 Inl e \<Rightarrow> Inl e
               | Inr transcription \<Rightarrow>
                   (case levenshtein env of
                      None \<Rightarrow>
                        Inr (Score (max 0 (min (100 * improved_similarity transcription reference_text) 100)))
                    | Some distance \<Rightarrow>
                        let final_score = levenshtein_score distance transcription reference_text
                        in if detailed \<and> phoneme_scoring_available env then
                             (case analyze_pronunciation_detailed (scorer_librosa env) audio1
                                     reference_text 16000 of
                                Inr detailed_result \<Rightarrow>
                                  Inr (Detailed (detailed_result\<lparr>overall_score :=
                                         max (overall_score detailed_result) (final_score * 0.8)\<rparr>))
                              | Inl e \<Rightarrow>
                                  Inr (create_simple_detailed_result env final_score transcription
                                         reference_text))
                           else if detailed then
                             Inr (create_simple_detailed_result env final_score transcription
                                    reference_text)
                           else Inr (Score final_score))))"

definition error_message :: "string \<Rightarrow> string" where
  "error_message s =
    (if str_in ''CUDA'' s then msg_gpu_memory
     else if str_in ''model'' (py_lower s) then msg_model_load_failed
     else if str_in ''audio'' (py_lower s) then msg_audio_failed
     else msg_unknown_error @ s)"

text \<open>The outer handler: every exception of the body is raised again as a RuntimeError.\<close>

definition score_pronunciation :: "environment \<Rightarrow> real list \<Rightarrow> string \<Rightarrow> bool \<Rightarrow> exn + outcome" where
  "score_pronunciation env audio_data reference_text detailed =
    (case score_body env audio_data reference_text detailed of
       Inr result \<Rightarrow> Inr result
     | Inl e \<Rightarrow> Inl (RuntimeError (msg_scoring_failed @ error_message (exn_str e))))"

definition score_pronunciation_detailed :: "environment \<Rightarrow> real list \<Rightarrow> string \<Rightarrow> exn + outcome" where
  "score_pronunciation_detailed env audio_data reference_text =
    score_pronunciation env audio_data reference_text True"

section \<open>AcousticFeatureExtractor\<close>

text \<open>
  The extractor returns a dict from feature names to numbers or arrays. Its signal
  processing is library code (librosa, scipy) and enters as the record
  \<open>signal_library\<close>: the pitch track of \<open>librosa.yin\<close>; the formant frequencies found
  from the pre-emphasised signal (LPC coefficients, frequency response, peaks); the
  frame values of the spectral features; the frame values of the temporal features.
  Each of them gives its value or raises.
\<close>

datatype fval = Num real | Arr "real list"

type_synonym feature_dict = "string \<rightharpoonup> fval"

record spectral_frames =
  sp_centroid :: "real list"
  sp_bandwidth :: "real list"
  sp_contrast :: "real list list"
  sp_rolloff :: "real list"
  sp_mfccs :: "real list list"
  sp_chroma :: "real list list"

record temporal_frames =
  tm_rms :: "real list"
  tm_zcr :: "real list"
  tm_frames :: "real list list"

record signal_library =
  yin :: "real list \<Rightarrow> exn + real list"
  lpc_peaks :: "real list \<Rightarrow> exn + real list"
  spectral :: "real list \<Rightarrow> exn + spectral_frames"
  temporal :: "real list \<Rightarrow> exn + temporal_frames"

definition np_median :: "real list \<Rightarrow> real" where
  "np_median xs =
    (let s = sort xs; n = length s
     in if odd n then s ! (n div 2) else (s ! (n div 2 - 1) + s ! (n div 2)) / 2)"

text \<open>The slope of \<open>scipy.stats.linregress\<close>: covariance over the variance of \<open>x\<close>.\<close>

definition linregress_slope :: "real list \<Rightarrow> real list \<Rightarrow> real" where
  "linregress_slope xs ys =
    (let mx = np_mean xs; my = np_mean ys
     in sum_list (map (\<lambda>(x, y). (x - mx) * (y - my)) (zip xs ys))
        / sum_list (map (\<lambda>x. (x - mx)\<^sup>2) xs))"

definition f0_keys :: "string list" where
  "f0_keys = [''f0_mean'', ''f0_std'', ''f0_median'', ''f0_range'', ''f0_slope'', ''voicing_rate'']"

definition formant_keys :: "string list" where
  "formant_keys = [''f1'', ''f2'', ''f3'', ''f1_f2_ratio'', ''formant_bandwidth'']"

definition spectral_keys :: "string list" where
  "spectral_keys =
    [''spectral_centroid_mean'', ''spectral_centroid_std'', ''spectral_bandwidth_mean'',
     ''spectral_bandwidth_std'', ''spectral_contrast_mean'', ''spectral_rolloff_mean'',
     ''mfcc_mean'', ''mfcc_std'', ''chroma_mean'', ''chroma_std'']"

definition temporal_keys :: "string list" where
  "temporal_keys =
    [''rms_mean'', ''rms_std'', ''zcr_mean'', ''zcr_std'', ''energy_mean'', ''energy_std'',
     ''energy_max'', ''silence_ratio'']"

definition zero_f0 :: feature_dict where
  "zero_f0 = map_of [(''f0_mean'', Num 0), (''f0_std'', Num 0), (''f0_median'', Num 0),
     (''f0_range'', Num 0), (''f0_slope'', Num 0), (''voicing_rate'', Num 0)]"

definition zero_formants :: feature_dict where
  "zero_formants = map_of [(''f1'', Num 0), (''f2'', Num 0), (''f3'', Num 0),
     (''f1_f2_ratio'', Num 0), (''formant_bandwidth'', Num 0)]"

text \<open>The bodies of the four \<open>try\<close> blocks, then the functions with their handlers.\<close>

definition f0_body :: "signal_library \<Rightarrow> real list \<Rightarrow> exn + feature_dict" where
  "f0_body lib audio =
    (case yin lib audio of
       Inl e \<Rightarrow> Inl e
     | Inr f0 \<Rightarrow>
         let valid_f0 = filter (\<lambda>f. f > 0) f0
         in if length valid_f0 = 0 then Inr zero_f0
            else Inr (map_of
              [(''f0_mean'', Num (np_mean valid_f0)),
               (''f0_std'', Num (np_std valid_f0)),
               (''f0_median'', Num (np_median valid_f0)),
               (''f0_range'', Num (Max (set valid_f0) - Min (set valid_f0))),
               (''voicing_rate'', Num (real (length valid_f0) / real (length f0))),
               (''f0_slope'', Num (if length valid_f0 > 1
                   then linregress_slope (map real [0..<length valid_f0]) valid_f0 else 0))]))"

definition extract_f0_features :: "signal_library \<Rightarrow> real list \<Rightarrow> feature_dict" where
  "extract_f0_features lib audio =
    (case f0_body lib audio of Inr d \<Rightarrow> d | Inl e \<Rightarrow> zero_f0)"

definition formant_body :: "signal_library \<Rightarrow> real list \<Rightarrow> exn + feature_dict" where
  "formant_body lib audio =
    (case audio of
       [] \<Rightarrow> Inl IndexError
     | a0 # later \<Rightarrow>
         let pre_emphasis = 0.97;
             emphasized = a0 # map (\<lambda>(x, prev). x - pre_emphasis * prev) (zip later (butlast audio));
             lpc_order = 10
         in if length emphasized > lpc_order then
              (case lpc_peaks lib emphasized of
                 Inl e \<Rightarrow> Inl e
               | Inr formants \<Rightarrow>
                   let fm1 = (if length formants > 0 then formants ! 0 else 0);
                       fm2 = (if length formants > 1 then formants ! 1 else 0);
                       fm3 = (if length formants > 2 then formants ! 2 else 0)
                   in Inr (map_of
                        [(''f1'', Num fm1), (''f2'', Num fm2), (''f3'', Num fm3),
                         (''f1_f2_ratio'', Num (if fm1 > 0 then fm2 / fm1 else 0)),
                         (''formant_bandwidth'',
                            Num (if length formants > 1 then np_std formants else 0))]))
            else Inr zero_formants)"

definition extract_formant_features :: "signal_library \<Rightarrow> real list \<Rightarrow> feature_dict" where
  "extract_formant_features lib audio =
    (case formant_body lib audio of Inr d \<Rightarrow> d | Inl e \<Rightarrow> zero_formants)"

definition spectral_body :: "signal_library \<Rightarrow> real list \<Rightarrow> exn + feature_dict" where
  "spectral_body lib audio =
    (case spectral lib audio of
       Inl e \<Rightarrow> Inl e
     | Inr fr \<Rightarrow>
         Inr (map_of
           [(''spectral_centroid_mean'', Num (np_mean (sp_centroid fr))),
            (''spectral_centroid_std'', Num (np_std (sp_centroid fr))),
            (''spectral_bandwidth_mean'', Num (np_mean (sp_bandwidth fr))),
            (''spectral_bandwidth_std'', Num (np_std (sp_bandwidth fr))),
            (''spectral_contrast_mean'', Arr (map np_mean (sp_contrast fr))),
            (''spectral_rolloff_mean'', Num (np_mean (sp_rolloff fr))),
            (''mfcc_mean'', Arr (map np_mean (sp_mfccs fr))),
            (''mfcc_std'', Arr (map np_std (sp_mfccs fr))),
            (''chroma_mean'', Arr (map np_mean (sp_chroma fr))),
            (''chroma_std'', Arr (map np_std (sp_chroma fr)))]))"

definition extract_spectral_features :: "signal_library \<Rightarrow> real list \<Rightarrow> feature_dict" where
  "extract_spectral_features lib audio =
    (case spectral_body lib audio of Inr d \<Rightarrow> d | Inl e \<Rightarrow> Map.empty)"

definition temporal_body :: "signal_library \<Rightarrow> real list \<Rightarrow> exn + feature_dict" where
  "temporal_body lib audio =
    (case temporal lib audio of
       Inl e \<Rightarrow> Inl e
     | Inr fr \<Rightarrow>
         let energy = map (\<lambda>frame. sum_list (map (\<lambda>x. x\<^sup>2) frame)) (tm_frames fr)
         in Inr (map_of
           [(''rms_mean'', Num (np_mean (tm_rms fr))),
            (''rms_std'', Num (np_std (tm_rms fr))),
            (''zcr_mean'', Num (np_mean (tm_zcr fr))),
            (''zcr_std'', Num (np_std (tm_zcr fr))),
            (''energy_mean'', Num (np_mean energy)),
            (''energy_std'', Num (np_std energy)),
            (''energy_max'', Num (if length energy > 0 then Max (set energy) else 0)),
            (''silence_ratio'', Num (if length energy > 0
                then real (length (filter (\<lambda>e. e < np_mean energy * 0.1) energy))
                     / real (length energy)
                else 0))]))"

definition extract_temporal_features :: "signal_library \<Rightarrow> real list \<Rightarrow> feature_dict" where
  "extract_temporal_features lib audio =
    (case temporal_body lib audio of Inr d \<Rightarrow> d | Inl e \<Rightarrow> Map.empty)"

definition extract_all_features :: "signal_library \<Rightarrow> real list \<Rightarrow> feature_dict" where
  "extract_all_features lib audio =
    (if length audio = 0 then Map.empty
     else extract_f0_features lib audio ++ extract_formant_features lib audio
          ++ extract_spectral_features lib audio ++ extract_temporal_features lib audio)"

definition all_keys :: "string list" where
  "all_keys = f0_keys @ formant_keys @ spectral_keys @ temporal_keys"

section \<open>The overall score as the specification states it\<close>











text \<open>
  What an entry of the word loop is: the sentinel, or the scored entry of a non-empty
  list of phoneme scores taken from the sequence, each for an expected phoneme.
\<close>

definition word_entry :: "PhonemeScore list \<Rightarrow> WordScore \<Rightarrow> bool" where
  "word_entry pss e =
    (e = sentinel_word (w_word e) (w_phonemes e) \<or>
     (\<exists>found. found \<noteq> [] \<and> set found \<subseteq> set pss \<and> phoneme ` set found \<subseteq> set (w_phonemes e) \<and>
              e = scored_word (w_word e) (w_phonemes e) found))"

section \<open>Reading a result\<close>

text \<open>The overall score that an outcome of \<open>score_pronunciation\<close> reports.\<close>

definition reported_score :: "outcome \<Rightarrow> real" where
  "reported_score res =
    (case res of Score s \<Rightarrow> s | Detailed r \<Rightarrow> overall_score r | SimpleDict s t ref \<Rightarrow> s)"

text \<open>
  An environment for the example runs: every dependency and model file is there, the
  recogniser hears \<open>A\<close>, the edit distance is 0 for equal strings and 1 otherwise, and
  the librosa calls of the scorer fail.
\<close>

definition sample_env :: environment where
  "sample_env =
    \<lparr>deps_available = True, model_name = ''data/models/wav2vec2-base-960h'',
     model_dir_exists = True, model_file_exists = (\<lambda>file. True),
     recognise = (\<lambda>audio. Inr ''A''),
     levenshtein = Some (\<lambda>a b. if a = b then 0 else 1),
     phoneme_scoring_available = True,
     scorer_librosa = (\<lambda>a sr. Inl (LibraryError []))\<rparr>"

text \<open>A signal library all of whose calls raise, for the example runs.\<close>

definition failing_library :: signal_library where
  "failing_library =
    \<lparr>yin = (\<lambda>a. Inl (LibraryError ''yin'')), lpc_peaks = (\<lambda>a. Inl (LibraryError ''lpc'')),
     spectral = (\<lambda>a. Inl (LibraryError ''spectral'')),
     temporal = (\<lambda>a. Inl (LibraryError ''too short''))\<rparr>"

section \<open>Properties of the phoneme score\<close>

lemma duration_rule_nonneg: "0 \<le> fst (duration_rule ph d)"
  by (simp add: duration_rule_def split: option.split prod.split)

lemma mfcc_rule_nonneg: "0 \<le> fst (mfcc_rule ph f)"
  by (simp add: mfcc_rule_def Let_def split: option.split)

lemma energy_rule_nonneg: "0 \<le> fst (energy_rule ph f)"
  by (simp add: energy_rule_def split: option.split)

lemma centroid_rule_nonneg: "0 \<le> fst (centroid_rule ph f)"
  by (simp add: centroid_rule_def split: option.split)

lemma score_phoneme_quality_le_base: "fst (score_phoneme_quality ph f d) \<le> 80"
proof -
  have "80 - fst (duration_rule ph d) - fst (mfcc_rule ph f) - fst (energy_rule ph f)
          - fst (centroid_rule ph f)
          - real (length (check_phoneme_type_quality ph (classify_phoneme_detailed ph) f d)) * 8 \<le> 80"
    using duration_rule_nonneg [of ph d] mfcc_rule_nonneg [of ph f]
      energy_rule_nonneg [of ph f] centroid_rule_nonneg [of ph f]
    by simp
  then show ?thesis
    by (simp add: score_phoneme_quality_def Let_def split_beta min_le_iff_disj)
qed

lemma score_phoneme_quality_range:
  "0 \<le> fst (score_phoneme_quality ph f d) \<and> fst (score_phoneme_quality ph f d) \<le> 100"
  by (simp add: score_phoneme_quality_def Let_def split_beta)

lemma score_segment_fields:
  assumes "score_segment lib audio sr seg = Some ps"
  shows "score ps = fst (score_phoneme_quality (phoneme ps)
            (extract_acoustic_features lib
               (py_slice audio (nat \<lfloor>start_time ps * real sr\<rfloor>) (nat \<lfloor>end_time ps * real sr\<rfloor>)) sr)
            (end_time ps - start_time ps))"
    and "confidence ps = make_confidence (issues ps)"
    and "quality ps = get_quality_level (score ps)"
  using assms
  by (auto simp: score_segment_def Let_def split_beta split: if_splits prod.splits)

lemma score_segments_member:
  "ps \<in> set (score_segments lib audio sr als) \<Longrightarrow>
     \<exists>seg \<in> set als. score_segment lib audio sr seg = Some ps"
  by (auto simp: score_segments_def List.map_filter_def)

lemma analyze_body_scores:
  "analyze_body lib audio text sr = Inr r \<Longrightarrow>
     \<exists>als. phoneme_scores r = score_segments lib audio sr als"
  by (auto simp: analyze_body_def Let_def split: sum.splits option.splits)

lemma analyze_phoneme_scores:
  assumes "analyze_pronunciation_detailed lib audio text sr = Inr r" "ps \<in> set (phoneme_scores r)"
  shows "\<exists>seg. score_segment lib audio sr seg = Some ps"
proof (cases "analyze_body lib audio text sr")
  case (Inl e)
  with assms show ?thesis
    by (auto simp: analyze_pronunciation_detailed_def split: if_splits)
next
  case (Inr r')
  with assms have "r' = r" by (simp add: analyze_pronunciation_detailed_def)
  with Inr obtain als where "phoneme_scores r = score_segments lib audio sr als"
    using analyze_body_scores by blast
  with assms(2) show ?thesis using score_segments_member by metis
qed

text \<open>
  A run of the analysis used below: one sample of audio, the reference text \<open>a\<close>, and
  librosa calls that fail. The only phoneme is far too short and scores 50.
\<close>

lemmas eval_defs =
  analyze_pronunciation_detailed_def analyze_body_def text_to_phonemes_def py_split_def
  py_strip_def py_lower_def py_lower_char_def py_isspace_def strip_non_word_def
  is_word_char_def converter_rules_def mapper_rules_def letters_to_phonemes_def phoneme_map_def
  map_words_to_phonemes_def force_align_ctc_def extract_acoustic_features_def no_features_def
  score_segments_def score_segment_def py_slice_def List.map_filter_def make_confidence_def
  score_phoneme_quality_def duration_rule_def mfcc_rule_def energy_rule_def centroid_rule_def
  duration_thresholds_def classify_phoneme_detailed_def check_phoneme_type_quality_def
  get_quality_level_def analyze_word_pronunciation_def py_get_def scored_word_def
  sentinel_word_def word_quality_weight_def is_severe_for_word_def py_round1_def
  generate_word_suggestions_def get_word_specific_suggestions_def phoneme_tip_of_def
  word_tips_def compute_overall_score_def base_score_def penalty_def poor_ratio_def
  fair_ratio_def quality_weight_def is_severe_def np_mean_def enumerate_eq_zip Let_def

lemma sample_run:
  "analyze_pronunciation_detailed (\<lambda>a sr. Inl (LibraryError [])) [1] ''a'' 16000 =
     Inr \<lparr>overall_score = 0,
          phoneme_scores =
            [\<lparr>phoneme = ph_ae, start_time = 0, end_time = 1 / 16000, score = 50,
              confidence = 9 / 10, quality = ''poor'', issues = [Issue DurTooShort ph_ae]\<rparr>],
          word_scores =
            [\<lparr>w_word = ''a'', w_score = 283 / 10, w_quality = ''poor'', w_phonemes = [ph_ae],
              w_phoneme_scores = [(ph_ae, 50, ''poor'', [Issue DurTooShort ph_ae])],
              w_issues = [PhonemeIssue (Issue DurTooShort ph_ae)],
              w_suggestions = [RhythmAdvice ''a'', PracticePhonemes ''a'' [ph_ae],
                               PhonemeTip TipOpenVowel],
              w_needs_improvement = True\<rparr>],
          pronunciation_issues = [ScoredIssue (Issue DurTooShort ph_ae)],
          duration_analysis = \<lparr>total_duration = 1 / 16000, speech_rate = Some 16000,
                                avg_phoneme_duration = Some (1 / 16000)\<rparr>,
          pitch_analysis = None\<rparr>"
  by (simp add: eval_defs)

text \<open>
  Claim C6. For every phoneme symbol, feature mapping and duration, the score that
  \<open>score_phoneme_quality\<close> returns lies in [0, 100]; and every PhonemeScore of a result
  of the analysis has a score in [0, 100] and the confidence
  \<open>min 1 (max 0.3 (1 - 0.1 * issue count))\<close>, which lies in [0.3, 1].
\<close>

theorem phoneme_score_and_confidence_bounds:
  "(0 \<le> fst (score_phoneme_quality ph f d) \<and> fst (score_phoneme_quality ph f d) \<le> 100) \<and>
   (analyze_pronunciation_detailed lib audio text sr = Inr r \<longrightarrow>
      (\<forall>ps \<in> set (phoneme_scores r).
         0 \<le> score ps \<and> score ps \<le> 100 \<and>
         confidence ps = min 1 (max 0.3 (1 - 0.1 * real (length (issues ps)))) \<and>
         0.3 \<le> confidence ps \<and> confidence ps \<le> 1))"
proof (intro conjI impI ballI)
  show "0 \<le> fst (score_phoneme_quality ph f d)" "fst (score_phoneme_quality ph f d) \<le> 100"
    using score_phoneme_quality_range by blast+
next
  fix ps
  assume run: "analyze_pronunciation_detailed lib audio text sr = Inr r"
    and mem: "ps \<in> set (phoneme_scores r)"
  then obtain seg where seg: "score_segment lib audio sr seg = Some ps"
    using analyze_phoneme_scores by blast
  show "0 \<le> score ps" "score ps \<le> 100"
    using score_segment_fields(1) [OF seg] score_phoneme_quality_range by simp_all
  have conf: "confidence ps = make_confidence (issues ps)"
    by (rule score_segment_fields(2) [OF seg])
  show "confidence ps = min 1 (max 0.3 (1 - 0.1 * real (length (issues ps))))"
    by (simp add: conf make_confidence_def mult.commute)
  show "0.3 \<le> confidence ps" "confidence ps \<le> 1"
    by (simp_all add: conf make_confidence_def)
qed

theorem phoneme_score_and_confidence_bounds_witness:
  "analyze_pronunciation_detailed (\<lambda>a sr. Inl (LibraryError [])) [1] ''a'' 16000 \<noteq> Inl ZeroDivisionError \<and>
   (\<exists>r. analyze_pronunciation_detailed (\<lambda>a sr. Inl (LibraryError [])) [1] ''a'' 16000 = Inr r \<and>
        phoneme_scores r \<noteq> [] \<and>
        (\<forall>ps \<in> set (phoneme_scores r).
           0 \<le> score ps \<and> score ps \<le> 100 \<and> confidence ps = 9 / 10 \<and>
           0.3 \<le> confidence ps \<and> confidence ps \<le> 1))"
  using phoneme_score_and_confidence_bounds
          [of ph_ae no_features 0 "\<lambda>a sr. Inl (LibraryError [])" "[1/2]" "''a''" 16000]
  by (simp add: sample_run)

text \<open>
  Claim C8. Every rule of \<open>score_phoneme_quality\<close> only deducts from the base score,
  so the score is at most 80 and its quality level is never \<open>excellent\<close>; the same holds
  for every PhonemeScore of a result of the analysis.
\<close>

theorem phoneme_score_never_excellent:
  "fst (score_phoneme_quality ph f d) \<le> 80 \<and>
   get_quality_level (fst (score_phoneme_quality ph f d)) \<noteq> ''excellent'' \<and>
   (analyze_pronunciation_detailed lib audio text sr = Inr r \<longrightarrow>
      (\<forall>ps \<in> set (phoneme_scores r). score ps \<le> 80 \<and> quality ps \<noteq> ''excellent''))"
proof (intro conjI impI ballI)
  show le: "fst (score_phoneme_quality ph f d) \<le> 80" for ph f d
    by (rule score_phoneme_quality_le_base)
  show "get_quality_level (fst (score_phoneme_quality ph f d)) \<noteq> ''excellent''"
    using le [of ph f d] by (simp add: get_quality_level_def)
  fix ps
  assume run: "analyze_pronunciation_detailed lib audio text sr = Inr r"
    and mem: "ps \<in> set (phoneme_scores r)"
  then obtain seg where seg: "score_segment lib audio sr seg = Some ps"
    using analyze_phoneme_scores by blast
  show s80: "score ps \<le> 80"
    using score_segment_fields(1) [OF seg] le by simp
  show "quality ps \<noteq> ''excellent''"
    using s80 score_segment_fields(3) [OF seg] by (simp add: get_quality_level_def)
qed

theorem phoneme_score_never_excellent_witness:
  "\<exists>r. analyze_pronunciation_detailed (\<lambda>a sr. Inl (LibraryError [])) [1] ''a'' 16000 = Inr r \<and>
        map quality (phoneme_scores r) = [''poor''] \<and>
        (\<forall>ps \<in> set (phoneme_scores r). score ps \<le> 80 \<and> quality ps \<noteq> ''excellent'')"
  using phoneme_score_never_excellent
          [of ph_ae no_features 0 "\<lambda>a sr. Inl (LibraryError [])" "[1/2]" "''a''" 16000]
  by (simp add: sample_run)

section \<open>Properties of the text conversion\<close>

lemma split_ws_spaces: "\<forall>c \<in> set t. py_isspace c \<Longrightarrow> split_ws cur t = (if cur = [] then [] else [cur])"
  by (induction t arbitrary: cur) auto

lemma split_ws_trailing:
  "\<forall>c \<in> set t. py_isspace c \<Longrightarrow> split_ws cur (s @ t) = split_ws cur s"
proof (induction s arbitrary: cur)
  case Nil
  then show ?case by (simp add: split_ws_spaces)
next
  case (Cons a s)
  then show ?case by simp
qed

lemma split_ws_leading: "split_ws [] (dropWhile py_isspace s) = split_ws [] s"
  by (induction s) auto

lemma py_split_strip: "py_split (py_strip s) = py_split s"
proof -
  let ?u = "dropWhile py_isspace s"
  have "rev (dropWhile py_isspace (rev ?u)) @ rev (takeWhile py_isspace (rev ?u))
          = rev (takeWhile py_isspace (rev ?u) @ dropWhile py_isspace (rev ?u))"
    by (simp only: rev_append)
  also have "\<dots> = ?u"
    by (simp only: takeWhile_dropWhile_id rev_rev_ident)
  finally have u: "?u = rev (dropWhile py_isspace (rev ?u)) @ rev (takeWhile py_isspace (rev ?u))"
    by (rule sym)
  have sp: "\<forall>c \<in> set (rev (takeWhile py_isspace (rev ?u))). py_isspace c"
    by (auto dest: set_takeWhileD)
  have "split_ws [] ?u = split_ws [] (rev (dropWhile py_isspace (rev ?u)))"
    using split_ws_trailing [OF sp, of "[]" "rev (dropWhile py_isspace (rev ?u))"] u by simp
  then show ?thesis
    by (simp add: py_split_def py_strip_def split_ws_leading)
qed

lemma py_lower_char_idem: "py_lower_char (py_lower_char c) = py_lower_char c"
  by (simp add: py_lower_char_def)

lemma split_ws_chars:
  "w \<in> set (split_ws cur s) \<Longrightarrow> set w \<subseteq> set cur \<union> set s"
proof (induction cur s rule: split_ws.induct)
  case (1 cur)
  then show ?case by (auto split: if_splits)
next
  case (2 cur c cs)
  then show ?case by (auto split: if_splits)
qed

lemma py_split_lower_words:
  assumes "w \<in> set (py_split (py_lower text))"
  shows "py_lower w = w"
proof -
  have "set w \<subseteq> set (py_lower text)"
    using split_ws_chars [of w "[]" "py_lower text"] assms by (simp add: py_split_def)
  then have "\<forall>c \<in> set w. py_lower_char c = c"
    by (auto simp: py_lower_def py_lower_char_idem)
  then show ?thesis
    by (simp add: py_lower_def map_idI)
qed

lemma map_words_fold:
  "foldl (\<lambda>word_phoneme_mapping word.
        let word_clean = strip_non_word (py_lower word)
        in case map_of mapper_rules word_clean of
             Some ps \<Rightarrow> word_phoneme_mapping(word_clean \<mapsto> ps)
           | None \<Rightarrow> word_phoneme_mapping(word_clean \<mapsto> letters_to_phonemes word_clean))
      m words k =
   (if k \<in> (\<lambda>w. strip_non_word (py_lower w)) ` set words then Some (mapper_value k) else m k)"
proof (induction words arbitrary: m)
  case Nil
  then show ?case by simp
next
  case (Cons w ws)
  have IH: "\<And>m. foldl (\<lambda>word_phoneme_mapping word.
        case map_of mapper_rules (strip_non_word (py_lower word)) of
             Some ps \<Rightarrow> word_phoneme_mapping(strip_non_word (py_lower word) \<mapsto> ps)
           | None \<Rightarrow> word_phoneme_mapping(strip_non_word (py_lower word) \<mapsto>
                       letters_to_phonemes (strip_non_word (py_lower word))))
      m ws k =
   (if k \<in> (\<lambda>w. strip_non_word (py_lower w)) ` set ws then Some (mapper_value k) else m k)"
    using Cons.IH by (simp add: Let_def)
  show ?case
    by (auto simp: IH Let_def mapper_value_def split: option.split)
qed

lemma map_words_to_phonemes_lookup:
  "map_words_to_phonemes words k =
     (if k \<in> (\<lambda>w. strip_non_word (py_lower w)) ` set words then Some (mapper_value k) else None)"
  by (simp add: map_words_to_phonemes_def map_words_fold)

lemma mapping_concat_eq:
  "mapping_concat text = concat (map (\<lambda>w. mapper_value (strip_non_word w)) (py_split (py_lower text)))"
proof -
  have "\<And>w. w \<in> set (py_split (py_lower text)) \<Longrightarrow>
      (case map_words_to_phonemes (py_split (py_lower text)) (strip_non_word (py_lower w)) of
         Some ps \<Rightarrow> ps | None \<Rightarrow> []) = mapper_value (strip_non_word w)"
    by (simp add: map_words_to_phonemes_lookup py_split_lower_words)
  then show ?thesis
    by (simp add: mapping_concat_def Let_def cong: map_cong)
qed

lemma converter_in_mapper:
  "map_of converter_rules w = Some ps \<Longrightarrow> map_of mapper_rules w = Some ps"
  by (simp add: converter_rules_def mapper_rules_def split: if_splits)

lemmas text_defs = text_to_phonemes_def py_split_def
  py_strip_def py_lower_def py_lower_char_def py_isspace_def strip_non_word_def
  is_word_char_def converter_rules_def mapper_rules_def letters_to_phonemes_def phoneme_map_def
  map_words_to_phonemes_def mapping_concat_def Let_def

text \<open>
  Claim C10. The lexicon of \<open>map_words_to_phonemes\<close> holds every entry of the lexicon
  of \<open>text_to_phonemes\<close> and more (the word \<open>good\<close>), so for the text \<open>good\<close> the
  phonemes of the mapping, taken word by word, are not the flat phoneme sequence; for a
  text whose words are all in both lexicons the two agree.
\<close>

theorem converter_and_mapper_lexicons:
  "(\<forall>w ps. map_of converter_rules w = Some ps \<longrightarrow> map_of mapper_rules w = Some ps) \<and>
   (map_of mapper_rules ''good'' \<noteq> None \<and> map_of converter_rules ''good'' = None) \<and>
   mapping_concat ''good'' \<noteq> text_to_phonemes ''good'' \<and>
   ((\<forall>w \<in> set (py_split (py_lower text)).
        map_of converter_rules (strip_non_word w) \<noteq> None \<and>
        map_of mapper_rules (strip_non_word w) \<noteq> None)
      \<longrightarrow> mapping_concat text = text_to_phonemes text)"
proof (intro conjI allI impI)
  show "map_of mapper_rules w = Some ps" if "map_of converter_rules w = Some ps" for w ps
    using that by (rule converter_in_mapper)
  show "map_of mapper_rules ''good'' \<noteq> None"
    by (simp add: mapper_rules_def)
  show "map_of converter_rules ''good'' = None"
    by (simp add: converter_rules_def)
  show "mapping_concat ''good'' \<noteq> text_to_phonemes ''good''"
    by (simp add: text_defs)
  assume both: "\<forall>w \<in> set (py_split (py_lower text)).
        map_of converter_rules (strip_non_word w) \<noteq> None \<and>
        map_of mapper_rules (strip_non_word w) \<noteq> None"
  have "mapper_value (strip_non_word w) =
          (case map_of converter_rules (strip_non_word w) of
             Some ps \<Rightarrow> ps | None \<Rightarrow> letters_to_phonemes (strip_non_word w))"
    if "w \<in> set (py_split (py_lower text))" for w
  proof -
    from both that obtain ps where ps: "map_of converter_rules (strip_non_word w) = Some ps"
      by auto
    then show ?thesis
      by (simp add: mapper_value_def converter_in_mapper [OF ps])
  qed
  then show "mapping_concat text = text_to_phonemes text"
    by (simp add: mapping_concat_eq text_to_phonemes_def py_split_strip Let_def cong: map_cong)
qed

theorem converter_and_mapper_lexicons_witness:
  "list_all (\<lambda>w. map_of converter_rules (strip_non_word w) \<noteq> None \<and>
                  map_of mapper_rules (strip_non_word w) \<noteq> None)
     (py_split (py_lower ''The people'')) \<and>
   mapping_concat ''The people'' = text_to_phonemes ''The people'' \<and>
   text_to_phonemes ''The people'' = [ph_eth, ph_schwa, ''p'', ph_i_long, ''p'', ph_schwa, ''l'']"
proof -
  have low: "py_lower ''The people'' = ''the people''"
    by code_simp
  have h: "\<forall>w \<in> set (py_split (py_lower ''The people'')).
        map_of converter_rules (strip_non_word w) \<noteq> None \<and>
        map_of mapper_rules (strip_non_word w) \<noteq> None"
    unfolding low by (simp add: text_defs)
  have v: "text_to_phonemes ''The people'' = [ph_eth, ph_schwa, ''p'', ph_i_long, ''p'', ph_schwa, ''l'']"
    unfolding text_to_phonemes_def low by (simp add: text_defs)
  have hl: "list_all (\<lambda>w. map_of converter_rules (strip_non_word w) \<noteq> None \<and>
                  map_of mapper_rules (strip_non_word w) \<noteq> None)
     (py_split (py_lower ''The people''))"
    using h by (simp only: list_all_iff)
  from converter_and_mapper_lexicons [of "''The people''"] h hl v show ?thesis by blast
qed

section \<open>Properties of the alignment\<close>
































section \<open>Properties of the overall score\<close>






















section \<open>Properties of the word-level analysis\<close>

lemma search_window_ok:
  "\<forall>i \<in> set idxs. i < length pss \<Longrightarrow>
     search_window pss ph idxs = Inr None \<or>
     (\<exists>s j. search_window pss ph idxs = Inr (Some (s, j)) \<and> s \<in> set pss \<and> phoneme s = ph)"
  by (induction idxs) (auto simp: py_get_def)

lemma collect_word_ok:
  "\<exists>found idx'. collect_word pss phs idx = Inr (found, idx') \<and>
       set found \<subseteq> set pss \<and> phoneme ` set found \<subseteq> set phs"
proof (induction phs arbitrary: idx)
  case Nil
  then show ?case by simp
next
  case (Cons ph rest)
  show ?case
  proof (cases "idx < length pss")
    case False
    with Cons.IH [of idx] show ?thesis by auto
  next
    case True
    then have cur: "py_get pss idx = Inr (pss ! idx)" by (simp add: py_get_def)
    show ?thesis
    proof (cases "phoneme (pss ! idx) = ph")
      case same: True
      from Cons.IH [of "idx + 1"] obtain found idx' where
        r: "collect_word pss rest (idx + 1) = Inr (found, idx')"
        and f: "set found \<subseteq> set pss" "phoneme ` set found \<subseteq> set rest" by blast
      have "collect_word pss (ph # rest) idx = Inr (pss ! idx # found, idx')"
        using True cur same r by simp
      moreover have "pss ! idx \<in> set pss" using True by simp
      ultimately show ?thesis using f same by auto
    next
      case differ: False
      have w: "\<forall>i \<in> set [idx - 2 ..< min (length pss) (idx + 3)]. i < length pss" by simp
      from search_window_ok [OF w, of ph]
      consider (none) "search_window pss ph [idx - 2 ..< min (length pss) (idx + 3)] = Inr None"
        | (some) s j where "search_window pss ph [idx - 2 ..< min (length pss) (idx + 3)] = Inr (Some (s, j))"
            "s \<in> set pss" "phoneme s = ph"
        by blast
      then show ?thesis
      proof cases
        case none
        with Cons.IH [of idx] True cur differ show ?thesis by auto
      next
        case some
        from Cons.IH [of j] obtain found idx' where
          r: "collect_word pss rest j = Inr (found, idx')"
          and f: "set found \<subseteq> set pss" "phoneme ` set found \<subseteq> set rest" by blast
        have "collect_word pss (ph # rest) idx = Inr (s # found, idx')"
          using True cur differ some(1) r by simp
        then show ?thesis using f some(2,3) by auto
      qed
    qed
  qed
qed

lemma sentinel_entry: "word_entry pss (sentinel_word wc phs)"
  by (simp add: word_entry_def sentinel_word_def)

lemma scored_entry:
  "found \<noteq> [] \<Longrightarrow> set found \<subseteq> set pss \<Longrightarrow> phoneme ` set found \<subseteq> set phs \<Longrightarrow>
     word_entry pss (scored_word wc phs found)"
  unfolding word_entry_def
  by (rule disjI2, rule exI [of _ found]) (simp add: scored_word_def Let_def)

lemma word_loop_ok:
  "\<exists>ws. word_loop m pss idx words = Inr ws \<and>
        map w_word ws = map (\<lambda>w. strip_non_word (py_lower w))
                          (filter (\<lambda>w. m (strip_non_word (py_lower w)) \<noteq> None) words) \<and>
        list_all (word_entry pss) ws"
proof (induction words arbitrary: idx)
  case Nil
  then show ?case by simp
next
  case (Cons w words)
  let ?wc = "strip_non_word (py_lower w)"
  show ?case
  proof (cases "m ?wc")
    case None
    with Cons.IH [of idx] show ?thesis by (auto simp: Let_def)
  next
    case (Some phs)
    from collect_word_ok [of pss phs idx] obtain found idx' where
      c: "collect_word pss phs idx = Inr (found, idx')"
      and f: "set found \<subseteq> set pss" "phoneme ` set found \<subseteq> set phs" by blast
    from Cons.IH [of idx'] obtain ws where
      r: "word_loop m pss idx' words = Inr ws"
      and n: "map w_word ws = map (\<lambda>w. strip_non_word (py_lower w))
                          (filter (\<lambda>w. m (strip_non_word (py_lower w)) \<noteq> None) words)"
      and e: "list_all (word_entry pss) ws" by blast
    let ?e = "if found \<noteq> [] then scored_word ?wc phs found else sentinel_word ?wc phs"
    have run: "word_loop m pss idx (w # words) = Inr (?e # ws)"
      using Some c r by (simp add: Let_def)
    have name: "w_word ?e = ?wc"
      by (simp add: scored_word_def sentinel_word_def Let_def)
    have ent: "word_entry pss ?e"
      using f by (simp add: sentinel_entry scored_entry)
    show ?thesis
      using run name ent n e Some by simp
  qed
qed

lemma scored_word_scores:
  "w_phoneme_scores (scored_word wc phs found)
     = map (\<lambda>ps. (phoneme ps, score ps, quality ps, issues ps)) found"
  by (simp add: scored_word_def Let_def)

lemma word_entry_unresolved:
  assumes "word_entry pss e" "w_phoneme_scores e = []"
  shows "e = sentinel_word (w_word e) (w_phonemes e)"
proof (rule ccontr)
  assume "e \<noteq> sentinel_word (w_word e) (w_phonemes e)"
  with assms(1) obtain found where f: "found \<noteq> []"
    and e: "e = scored_word (w_word e) (w_phonemes e) found"
    unfolding word_entry_def by blast
  have "w_phoneme_scores (scored_word (w_word e) (w_phonemes e) found) \<noteq> []"
    using f by (simp only: scored_word_scores map_is_Nil_conv not_False_eq_True)
  with e assms(2) show False by simp
qed

lemma word_entry_absent:
  assumes "word_entry pss e" "set (w_phonemes e) \<inter> phoneme ` set pss = {}"
  shows "e = sentinel_word (w_word e) (w_phonemes e)"
proof (rule ccontr)
  assume "e \<noteq> sentinel_word (w_word e) (w_phonemes e)"
  with assms(1) obtain found where "found \<noteq> []" "set found \<subseteq> set pss"
    "phoneme ` set found \<subseteq> set (w_phonemes e)"
    by (auto simp: word_entry_def)
  then obtain s where "s \<in> set pss" "phoneme s \<in> set (w_phonemes e)"
    by (cases found) auto
  with assms(2) show False by auto
qed

lemma sentinel_fields:
  "e = sentinel_word wc phs \<Longrightarrow>
     w_score e = 0 \<and> w_quality e = ''unknown'' \<and> w_issues e \<noteq> [] \<and> w_needs_improvement e \<and>
     w_phoneme_scores e = []"
  by (simp add: sentinel_word_def)

text \<open>
  Claim C7. The word-level analysis never raises: it returns one entry for each word
  that is a key of the mapping, in order. An entry none of whose expected phonemes was
  resolved to a phoneme score (in particular when none of them occurs in the score
  sequence) is the sentinel: score 0, quality \<open>unknown\<close>, one diagnostic issue,
  \<open>needs_improvement\<close> true.
\<close>

theorem unresolved_word_sentinel:
  "\<exists>ws. analyze_word_pronunciation words m pss = Inr ws \<and>
        map w_word ws = map (\<lambda>w. strip_non_word (py_lower w))
                          (filter (\<lambda>w. m (strip_non_word (py_lower w)) \<noteq> None) words) \<and>
        (\<forall>e \<in> set ws.
           (w_phoneme_scores e = [] \<or> set (w_phonemes e) \<inter> phoneme ` set pss = {}) \<longrightarrow>
           w_score e = 0 \<and> w_quality e = ''unknown'' \<and> w_issues e \<noteq> [] \<and>
           w_needs_improvement e \<and> w_phoneme_scores e = [])"
proof -
  from word_loop_ok [of m pss 0 words] obtain ws where
    r: "word_loop m pss 0 words = Inr ws"
    and n: "map w_word ws = map (\<lambda>w. strip_non_word (py_lower w))
                          (filter (\<lambda>w. m (strip_non_word (py_lower w)) \<noteq> None) words)"
    and e: "list_all (word_entry pss) ws" by blast
  have "w_score x = 0 \<and> w_quality x = ''unknown'' \<and> w_issues x \<noteq> [] \<and>
        w_needs_improvement x \<and> w_phoneme_scores x = []"
    if "x \<in> set ws" "w_phoneme_scores x = [] \<or> set (w_phonemes x) \<inter> phoneme ` set pss = {}" for x
  proof -
    from e that(1) have we: "word_entry pss x" by (simp add: list_all_iff)
    from that(2) have "x = sentinel_word (w_word x) (w_phonemes x)"
      using word_entry_unresolved [OF we] word_entry_absent [OF we] by blast
    then show ?thesis by (rule sentinel_fields)
  qed
  with r n show ?thesis
    unfolding analyze_word_pronunciation_def by blast
qed

lemmas word_defs = analyze_word_pronunciation_def map_words_to_phonemes_def py_lower_def
  py_lower_char_def strip_non_word_def is_word_char_def mapper_rules_def
  letters_to_phonemes_def phoneme_map_def sentinel_word_def py_get_def Let_def

lemma unresolved_run:
  "analyze_word_pronunciation [''good'', ''zz'']
      (map_words_to_phonemes [''good'', ''zz''])
      [\<lparr>phoneme = ''h'', start_time = 0, end_time = 1 / 10, score = 80, confidence = 1,
        quality = ''good'', issues = []\<rparr>]
    = Inr [sentinel_word ''good'' [''g'', ph_upsilon, ''d''], sentinel_word ''zz'' [''z'', ''z'']]"
  by (simp add: word_defs)

theorem unresolved_word_sentinel_witness:
  "analyze_word_pronunciation [''good'', ''zz'']
      (map_words_to_phonemes [''good'', ''zz''])
      [\<lparr>phoneme = ''h'', start_time = 0, end_time = 1 / 10, score = 80, confidence = 1,
        quality = ''good'', issues = []\<rparr>]
    = Inr [sentinel_word ''good'' [''g'', ph_upsilon, ''d''], sentinel_word ''zz'' [''z'', ''z'']] \<and>
   w_phoneme_scores (sentinel_word ''good'' [''g'', ph_upsilon, ''d'']) = [] \<and>
   w_score (sentinel_word ''good'' [''g'', ph_upsilon, ''d'']) = 0 \<and>
   w_quality (sentinel_word ''good'' [''g'', ph_upsilon, ''d'']) = ''unknown'' \<and>
   w_issues (sentinel_word ''good'' [''g'', ph_upsilon, ''d'']) \<noteq> [] \<and>
   w_needs_improvement (sentinel_word ''good'' [''g'', ph_upsilon, ''d''])"
  using unresolved_word_sentinel [of "[''good'', ''zz'']" "map_words_to_phonemes [''good'', ''zz'']"
      "[\<lparr>phoneme = ''h'', start_time = 0, end_time = 1 / 10, score = 80, confidence = 1,
        quality = ''good'', issues = []\<rparr>]"]
  by (simp add: unresolved_run) (simp add: sentinel_word_def)

section \<open>Properties of the entry point\<close>

lemma error_message_empty_audio: "error_message msg_audio_empty = msg_unknown_error @ msg_audio_empty"
  by (simp add: error_message_def msg_audio_empty_def py_lower_def py_lower_char_def)

lemma error_message_deps:
  "error_message (msg_deps_missing @ ''pip install -r requirements.txt'')
     = msg_unknown_error @ msg_deps_missing @ ''pip install -r requirements.txt''"
  by (simp add: error_message_def msg_deps_missing_def py_lower_def py_lower_char_def)

text \<open>
  Claim C1 says that a scoring call on an empty audio buffer returns a default result
  (overall score 0, empty score lists, one diagnostic issue). With every dependency
  and model file in place, \<open>score_pronunciation\<close> on the empty buffer raises
  RuntimeError, with the message "pronunciation scoring failed: unknown error: the audio
  data is empty".
\<close>

theorem empty_audio_counterexample:
  "score_pronunciation
     \<lparr>deps_available = True, model_name = ''data/models/wav2vec2-base-960h'',
      model_dir_exists = True, model_file_exists = (\<lambda>file. True),
      recognise = (\<lambda>audio. Inr ''HELLO''), levenshtein = Some (\<lambda>a b. 0),
      phoneme_scoring_available = True,
      scorer_librosa = (\<lambda>audio sr. Inl (LibraryError ''no frames''))\<rparr>
     [] ''hello'' True
   = Inl (RuntimeError (msg_scoring_failed @ msg_unknown_error @ msg_audio_empty))"
  by (simp add: score_pronunciation_def score_body_def error_message_empty_audio)

text \<open>
  Claim C1, as the code has it. For every environment, reference text and mode, a
  scoring call on an empty audio buffer terminates by raising RuntimeError to the
  caller and returns no result: the guard on the buffer raises ValueError (or, when
  the imports fail, the guard before it raises ImportError), and the handler raises
  it again as RuntimeError with the "unknown error" message.
\<close>

theorem empty_audio_raises:
  "score_pronunciation env [] reference_text detailed =
     Inl (RuntimeError (msg_scoring_failed @ msg_unknown_error @
            (if deps_available env then msg_audio_empty
             else msg_deps_missing @ ''pip install -r requirements.txt'')))"
  by (simp add: score_pronunciation_def score_body_def error_message_empty_audio error_message_deps)

lemma levenshtein_score_nonneg: "0 \<le> levenshtein_score lev tr ref"
  by (simp add: levenshtein_score_def Let_def)

lemma required_files_found:
  "(\<forall>f \<in> set required_files. model_file_exists env f) \<Longrightarrow>
     find (\<lambda>file. \<not> model_file_exists env file) required_files = None"
  by (simp add: find_None_iff)

lemma detailed_run:
  assumes "deps_available env" "audio \<noteq> []" "model_dir_exists env"
    "\<forall>f \<in> set required_files. model_file_exists env f"
    "recognise env (normalise audio) = Inr tr" "levenshtein env = Some lev"
    "phoneme_scoring_available env"
    "analyze_pronunciation_detailed (scorer_librosa env) (normalise audio) ref 16000 = Inr r"
  shows "score_pronunciation env audio ref True =
           Inr (Detailed (r\<lparr>overall_score := max (overall_score r) (levenshtein_score lev tr ref * 0.8)\<rparr>))"
    and "score_pronunciation env audio ref False = Inr (Score (levenshtein_score lev tr ref))"
  using assms
  by (simp_all add: score_pronunciation_def score_body_def required_files_found Let_def)

lemma score_floor:
  assumes "score_pronunciation env audio ref False = Inr (Score s)"
    and "score_pronunciation env audio ref True = Inr res"
  shows "s * 0.8 \<le> reported_score res"
proof -
  from assms(1) obtain tr where tr: "recognise env (normalise audio) = Inr tr"
    and pre: "deps_available env" "length audio \<noteq> 0" "model_dir_exists env"
      "find (\<lambda>file. \<not> model_file_exists env file) required_files = None"
    by (auto simp: score_pronunciation_def score_body_def Let_def
        split: sum.splits option.splits if_splits)
  show ?thesis
  proof (cases "levenshtein env")
    case None
    with assms tr pre show ?thesis
      by (auto simp: score_pronunciation_def score_body_def Let_def reported_score_def)
  next
    case (Some lev)
    let ?f = "levenshtein_score lev tr ref"
    have f0: "0 \<le> ?f" by (rule levenshtein_score_nonneg)
    from assms(1) tr pre Some have s: "s = ?f"
      by (simp add: score_pronunciation_def score_body_def Let_def)
    from assms(2) tr pre Some have
      "res = create_simple_detailed_result env ?f tr ref \<or>
       (\<exists>r. res = Detailed (r\<lparr>overall_score := max (overall_score r) (?f * 0.8)\<rparr>))"
      by (auto simp: score_pronunciation_def score_body_def Let_def split: sum.splits if_splits)
    then show ?thesis
      using f0 s by (auto simp: create_simple_detailed_result_def reported_score_def)
  qed
qed

text \<open>
  Claim C9. In detailed mode, when the call reaches the phoneme-level analysis and the
  analysis returns a result, the overall score of the returned result is the maximum of
  the phoneme-level overall score and 0.8 times the Levenshtein similarity score, which
  is the score of simple mode. Hence, whenever simple mode returns a score and
  detailed mode returns a result, the reported overall score is at least 0.8 times the
  simple-mode score.
\<close>

theorem detailed_score_floor:
  "(deps_available env \<and> audio \<noteq> [] \<and> model_dir_exists env \<and>
    list_all (model_file_exists env) required_files \<and>
    recognise env (normalise audio) = Inr tr \<and> levenshtein env = Some lev \<and>
    phoneme_scoring_available env \<and>
    analyze_pronunciation_detailed (scorer_librosa env) (normalise audio) ref 16000 = Inr r
    \<longrightarrow>
      score_pronunciation env audio ref False = Inr (Score (levenshtein_score lev tr ref)) \<and>
      score_pronunciation env audio ref True =
        Inr (Detailed (r\<lparr>overall_score :=
               max (overall_score r) (levenshtein_score lev tr ref * 0.8)\<rparr>))) \<and>
   (score_pronunciation env audio ref False = Inr (Score s) \<and>
    score_pronunciation env audio ref True = Inr res
    \<longrightarrow> s * 0.8 \<le> reported_score res)"
proof (intro conjI impI)
  assume a: "deps_available env \<and> audio \<noteq> [] \<and> model_dir_exists env \<and>
    list_all (model_file_exists env) required_files \<and>
    recognise env (normalise audio) = Inr tr \<and> levenshtein env = Some lev \<and>
    phoneme_scoring_available env \<and>
    analyze_pronunciation_detailed (scorer_librosa env) (normalise audio) ref 16000 = Inr r"
  then have f: "\<forall>f \<in> set required_files. model_file_exists env f"
    by (simp add: list_all_iff)
  from a f show "score_pronunciation env audio ref False = Inr (Score (levenshtein_score lev tr ref))"
    by (intro detailed_run(2)) simp_all
  from a f show "score_pronunciation env audio ref True =
        Inr (Detailed (r\<lparr>overall_score :=
               max (overall_score r) (levenshtein_score lev tr ref * 0.8)\<rparr>))"
    by (intro detailed_run(1)) simp_all
next
  assume "score_pronunciation env audio ref False = Inr (Score s) \<and>
    score_pronunciation env audio ref True = Inr res"
  then show "s * 0.8 \<le> reported_score res"
    using score_floor by blast
qed

theorem detailed_score_floor_witness:
  "deps_available sample_env \<and> [1] \<noteq> ([] :: real list) \<and> model_dir_exists sample_env \<and>
   list_all (model_file_exists sample_env) required_files \<and>
   recognise sample_env (normalise [1]) = Inr ''A'' \<and>
   levenshtein sample_env = Some (\<lambda>a b. if a = b then 0 else 1) \<and>
   phoneme_scoring_available sample_env \<and>
   score_pronunciation sample_env [1] ''a'' False = Inr (Score 100) \<and>
   (\<exists>res. score_pronunciation sample_env [1] ''a'' True = Inr res \<and> reported_score res = 80) \<and>
   (100::real) * 0.8 \<le> 80"
proof -
  have n: "normalise [1] = [1]" by (simp add: normalise_def)
  have la: "py_lower ''A'' = ''a''" and lb: "py_lower ''a'' = ''a''"
    by code_simp+
  have l: "levenshtein_score (\<lambda>a b. if a = b then 0 else 1) ''A'' ''a'' = 100"
    by (simp add: levenshtein_score_def la lb Let_def)
  have e: "scorer_librosa sample_env = (\<lambda>a sr. Inl (LibraryError []))"
    by (simp add: sample_env_def)
  obtain R where R: "analyze_pronunciation_detailed (\<lambda>a sr. Inl (LibraryError [])) [1] ''a'' 16000 = Inr R"
    and ov: "overall_score R = 0"
    using sample_run by simp
  have run: "analyze_pronunciation_detailed (scorer_librosa sample_env) (normalise [1]) ''a'' 16000 = Inr R"
    by (simp only: e n R)
  have pre: "deps_available sample_env \<and> [1] \<noteq> ([] :: real list) \<and> model_dir_exists sample_env \<and>
    list_all (model_file_exists sample_env) required_files \<and>
    recognise sample_env (normalise [1]) = Inr ''A'' \<and>
    levenshtein sample_env = Some (\<lambda>a b. if a = b then 0 else 1) \<and>
    phoneme_scoring_available sample_env"
    by (simp add: sample_env_def required_files_def)
  from detailed_score_floor [of sample_env "[1]" "''A''" "\<lambda>a b. if a = b then 0 else 1" "''a''" R 100]
    pre run
  have "score_pronunciation sample_env [1] ''a'' False = Inr (Score 100) \<and>
        score_pronunciation sample_env [1] ''a'' True = Inr (Detailed (R\<lparr>overall_score := 80\<rparr>))"
    by (simp add: l ov)
  then have "score_pronunciation sample_env [1] ''a'' False = Inr (Score 100) \<and>
        (\<exists>res. score_pronunciation sample_env [1] ''a'' True = Inr res \<and> reported_score res = 80)"
    by (simp add: reported_score_def)
  with pre show ?thesis by simp
qed

section \<open>Properties of the feature extractor\<close>

lemma dom_zero_f0: "dom zero_f0 = set f0_keys"
  by (auto simp: zero_f0_def f0_keys_def dom_def split: if_splits)

lemma dom_zero_formants: "dom zero_formants = set formant_keys"
  by (auto simp: zero_formants_def formant_keys_def dom_def split: if_splits)

lemma dom_f0: "dom (extract_f0_features lib audio) = set f0_keys"
  by (auto simp: extract_f0_features_def f0_body_def Let_def dom_zero_f0 dom_map_of_conv_image_fst
      f0_keys_def split: sum.splits)

lemma dom_formants: "dom (extract_formant_features lib audio) = set formant_keys"
  by (auto simp: extract_formant_features_def formant_body_def Let_def dom_zero_formants
      dom_map_of_conv_image_fst formant_keys_def split: sum.splits list.splits if_splits)

lemma dom_spectral:
  "dom (extract_spectral_features lib audio) = (if isl (spectral lib audio) then {} else set spectral_keys)"
  by (auto simp: extract_spectral_features_def spectral_body_def dom_map_of_conv_image_fst
      spectral_keys_def split: sum.splits)

lemma dom_temporal:
  "dom (extract_temporal_features lib audio) = (if isl (temporal lib audio) then {} else set temporal_keys)"
  by (auto simp: extract_temporal_features_def temporal_body_def Let_def dom_map_of_conv_image_fst
      temporal_keys_def split: sum.splits)


lemma keys_disjoint:
  "set f0_keys \<inter> set formant_keys = {}" "set f0_keys \<inter> set spectral_keys = {}"
  "set f0_keys \<inter> set temporal_keys = {}" "set formant_keys \<inter> set spectral_keys = {}"
  "set formant_keys \<inter> set temporal_keys = {}" "set spectral_keys \<inter> set temporal_keys = {}"
  by (simp_all add: f0_keys_def formant_keys_def spectral_keys_def temporal_keys_def)

lemma dom_all:
  "audio \<noteq> [] \<Longrightarrow>
   dom (extract_all_features lib audio) =
     set f0_keys \<union> set formant_keys
     \<union> (if isl (spectral lib audio) then {} else set spectral_keys)
     \<union> (if isl (temporal lib audio) then {} else set temporal_keys)"
  by (simp only: extract_all_features_def dom_map_add dom_f0 dom_formants dom_spectral dom_temporal
      length_0_conv if_False) auto

lemma f0_failed: "isl (yin lib audio) \<Longrightarrow> extract_f0_features lib audio = zero_f0"
  by (auto simp: extract_f0_features_def f0_body_def split: sum.splits)

lemma formants_failed:
  "isl (formant_body lib audio) \<Longrightarrow> extract_formant_features lib audio = zero_formants"
  by (auto simp: extract_formant_features_def split: sum.splits)

lemma all_features_f0_key:
  assumes "audio \<noteq> []" "k \<in> set f0_keys"
  shows "extract_all_features lib audio k = extract_f0_features lib audio k"
proof -
  have a: "k \<notin> dom (extract_formant_features lib audio)"
    and b: "k \<notin> dom (extract_spectral_features lib audio)"
    and c: "k \<notin> dom (extract_temporal_features lib audio)"
    using assms(2) keys_disjoint by (auto simp: dom_formants dom_spectral dom_temporal)
  show ?thesis
    using assms(1) a b c by (simp add: extract_all_features_def map_add_dom_app_simps)
qed

lemma all_features_formant_key:
  assumes "audio \<noteq> []" "k \<in> set formant_keys"
  shows "extract_all_features lib audio k = extract_formant_features lib audio k"
proof -
  have b: "k \<notin> dom (extract_spectral_features lib audio)"
    and c: "k \<notin> dom (extract_temporal_features lib audio)"
    and d: "k \<in> dom (extract_formant_features lib audio)"
    using assms(2) keys_disjoint by (auto simp: dom_formants dom_spectral dom_temporal)
  show ?thesis
    using assms(1) b c d by (simp add: extract_all_features_def map_add_dom_app_simps)
qed

lemma zero_f0_value: "k \<in> set f0_keys \<Longrightarrow> zero_f0 k = Some (Num 0)"
  by (auto simp: zero_f0_def f0_keys_def)

lemma zero_formants_value: "k \<in> set formant_keys \<Longrightarrow> zero_formants k = Some (Num 0)"
  by (auto simp: zero_formants_def formant_keys_def)

text \<open>
  Claim C3, as the code has it. For every non-empty buffer the extractor returns a
  mapping (no exception leaves a sub-extractor) that is not empty: it holds the six
  pitch keys and the five formant keys, with the value 0 when the pitch or the formant
  extraction fails; it holds the ten spectral keys exactly when the spectral extraction
  succeeds and the eight temporal keys exactly when the temporal extraction succeeds, a
  failing spectral or temporal extraction contributing no key. For the empty buffer the
  mapping is empty.
\<close>

theorem extractor_keys:
  assumes "audio \<noteq> []"
  shows "dom (extract_all_features lib audio) =
           set f0_keys \<union> set formant_keys
           \<union> (if isl (spectral lib audio) then {} else set spectral_keys)
           \<union> (if isl (temporal lib audio) then {} else set temporal_keys) \<and>
         extract_all_features lib audio \<noteq> Map.empty \<and>
         extract_all_features lib [] = Map.empty \<and>
         (isl (yin lib audio) \<longrightarrow>
            list_all (\<lambda>k. extract_all_features lib audio k = Some (Num 0)) f0_keys) \<and>
         (isl (formant_body lib audio) \<longrightarrow>
            list_all (\<lambda>k. extract_all_features lib audio k = Some (Num 0)) formant_keys) \<and>
         (isl (spectral lib audio) \<longrightarrow>
            list_all (\<lambda>k. extract_all_features lib audio k = None) spectral_keys) \<and>
         (isl (temporal lib audio) \<longrightarrow>
            list_all (\<lambda>k. extract_all_features lib audio k = None) temporal_keys) \<and>
         (\<not> isl (spectral lib audio) \<and> \<not> isl (temporal lib audio) \<longrightarrow>
            list_all (\<lambda>k. extract_all_features lib audio k \<noteq> None) all_keys)"
proof -
  note d = dom_all [OF assms, of lib]
  have ne: "extract_all_features lib audio \<noteq> Map.empty"
  proof
    assume "extract_all_features lib audio = Map.empty"
    then have "dom (extract_all_features lib audio) = {}" by simp
    with d show False by (auto simp: f0_keys_def)
  qed
  have e: "extract_all_features lib [] = Map.empty"
    by (simp add: extract_all_features_def)
  have f: "list_all (\<lambda>k. extract_all_features lib audio k = Some (Num 0)) f0_keys"
    if "isl (yin lib audio)"
    unfolding list_all_iff
    using all_features_f0_key [OF assms] f0_failed [OF that] zero_f0_value by simp
  have g: "list_all (\<lambda>k. extract_all_features lib audio k = Some (Num 0)) formant_keys"
    if "isl (formant_body lib audio)"
    unfolding list_all_iff
    using all_features_formant_key [OF assms] formants_failed [OF that] zero_formants_value by simp
  have s: "list_all (\<lambda>k. extract_all_features lib audio k = None) spectral_keys"
    if "isl (spectral lib audio)"
  proof -
    have "k \<notin> dom (extract_all_features lib audio)" if "k \<in> set spectral_keys" for k
      using that \<open>isl (spectral lib audio)\<close> keys_disjoint unfolding d by (auto split: if_splits)
    then show ?thesis unfolding list_all_iff by (auto simp: dom_def)
  qed
  have t: "list_all (\<lambda>k. extract_all_features lib audio k = None) temporal_keys"
    if "isl (temporal lib audio)"
  proof -
    have "k \<notin> dom (extract_all_features lib audio)" if "k \<in> set temporal_keys" for k
      using that \<open>isl (temporal lib audio)\<close> keys_disjoint unfolding d by (auto split: if_splits)
    then show ?thesis unfolding list_all_iff by (auto simp: dom_def)
  qed
  have a: "list_all (\<lambda>k. extract_all_features lib audio k \<noteq> None) all_keys"
    if "\<not> isl (spectral lib audio) \<and> \<not> isl (temporal lib audio)"
  proof -
    have "k \<in> dom (extract_all_features lib audio)" if "k \<in> set all_keys" for k
      using that \<open>\<not> isl (spectral lib audio) \<and> \<not> isl (temporal lib audio)\<close>
      unfolding d by (auto simp: all_keys_def)
    then show ?thesis unfolding list_all_iff by (auto simp: dom_def)
  qed
  show ?thesis using d ne e f g s t a by blast
qed

text \<open>
  Claim C3 says that a failing sub-extractor leaves every feature key present, with a
  zeroed value. When the spectral extraction fails on a non-empty buffer, its handler
  returns the empty dict, and the key \<open>mfcc_mean\<close> is absent from the result.
\<close>

theorem extractor_keys_counterexample:
  "[1] \<noteq> ([] :: real list) \<and>
   spectral \<lparr>yin = (\<lambda>a. Inr [0, 100, 120]), lpc_peaks = (\<lambda>a. Inr [500]),
             spectral = (\<lambda>a. Inl (LibraryError ''spectral'')),
             temporal = (\<lambda>a. Inl (LibraryError ''too short''))\<rparr> [1]
      = Inl (LibraryError ''spectral'') \<and>
   extract_all_features
      \<lparr>yin = (\<lambda>a. Inr [0, 100, 120]), lpc_peaks = (\<lambda>a. Inr [500]),
       spectral = (\<lambda>a. Inl (LibraryError ''spectral'')),
       temporal = (\<lambda>a. Inl (LibraryError ''too short''))\<rparr> [1] ''mfcc_mean'' = None"
proof -
  let ?lib = "\<lparr>yin = (\<lambda>a. Inr [0, 100, 120]), lpc_peaks = (\<lambda>a. Inr [500]),
       spectral = (\<lambda>a. Inl (LibraryError ''spectral'')),
       temporal = (\<lambda>a. Inl (LibraryError ''too short''))\<rparr> :: signal_library"
  have "''mfcc_mean'' \<notin> dom (extract_all_features ?lib [1])"
    by (simp add: dom_all f0_keys_def formant_keys_def)
  then have "extract_all_features ?lib [1] ''mfcc_mean'' = None"
    by (simp only: domIff not_not)
  then show ?thesis by simp
qed

theorem extractor_keys_witness:
  "[1, 1, 1, 1, 1, 1, 1, 1, 1, 1, 1] \<noteq> ([] :: real list) \<and>
   isl (yin failing_library [1, 1, 1, 1, 1, 1, 1, 1, 1, 1, 1]) \<and> isl (formant_body failing_library [1, 1, 1, 1, 1, 1, 1, 1, 1, 1, 1]) \<and>
   isl (spectral failing_library [1, 1, 1, 1, 1, 1, 1, 1, 1, 1, 1]) \<and> isl (temporal failing_library [1, 1, 1, 1, 1, 1, 1, 1, 1, 1, 1]) \<and>
   dom (extract_all_features failing_library [1, 1, 1, 1, 1, 1, 1, 1, 1, 1, 1]) = set f0_keys \<union> set formant_keys \<and>
   list_all (\<lambda>k. extract_all_features failing_library [1, 1, 1, 1, 1, 1, 1, 1, 1, 1, 1] k = Some (Num 0)) (f0_keys @ formant_keys) \<and>
   list_all (\<lambda>k. extract_all_features failing_library [1, 1, 1, 1, 1, 1, 1, 1, 1, 1, 1] k = None) (spectral_keys @ temporal_keys)"
proof -
  have ne: "[1, 1, 1, 1, 1, 1, 1, 1, 1, 1, 1] \<noteq> ([] :: real list)" by simp
  have i: "isl (yin failing_library [1, 1, 1, 1, 1, 1, 1, 1, 1, 1, 1]) \<and> isl (formant_body failing_library [1, 1, 1, 1, 1, 1, 1, 1, 1, 1, 1]) \<and>
           isl (spectral failing_library [1, 1, 1, 1, 1, 1, 1, 1, 1, 1, 1]) \<and> isl (temporal failing_library [1, 1, 1, 1, 1, 1, 1, 1, 1, 1, 1])"
    by (simp add: failing_library_def formant_body_def)
  note t = extractor_keys [OF ne, of failing_library]
  have d: "dom (extract_all_features failing_library [1, 1, 1, 1, 1, 1, 1, 1, 1, 1, 1]) = set f0_keys \<union> set formant_keys"
    using t i by simp
  have z1: "list_all (\<lambda>k. extract_all_features failing_library [1, 1, 1, 1, 1, 1, 1, 1, 1, 1, 1] k = Some (Num 0)) f0_keys"
    and z2: "list_all (\<lambda>k. extract_all_features failing_library [1, 1, 1, 1, 1, 1, 1, 1, 1, 1, 1] k = Some (Num 0)) formant_keys"
    and n1: "list_all (\<lambda>k. extract_all_features failing_library [1, 1, 1, 1, 1, 1, 1, 1, 1, 1, 1] k = None) spectral_keys"
    and n2: "list_all (\<lambda>k. extract_all_features failing_library [1, 1, 1, 1, 1, 1, 1, 1, 1, 1, 1] k = None) temporal_keys"
    using t i by blast+
  show ?thesis
    using ne i d z1 z2 n1 n2 by (simp only: list_all_append simp_thms)
qed

end
